theory Spec2Isabelle
  imports Main "HOL-Library.Sublist" "HOL-Library.Char_ord" "HOL-Library.List_Lexorder"
begin

section \<open>The CMDB of \<open>app.py\<close>: configuration items and relationships\<close>

text \<open>
  The program is a Flask application over two SQLAlchemy tables held in SQLite. The
  embedding makes the database an explicit state (two lists of rows, in rowid order) that
  every request handler receives and returns. A handler's HTTP answer is the pair the
  source returns: a body and a status code. The clock read by the \<open>default\<close> and
  \<open>onupdate\<close> hooks of \<open>last_updated\<close> is the parameter \<open>now\<close>.

  A string is a list of characters; \<open>char\<close> covers the code points 0 to 255, so every
  list is a Python string. Integers are Python's unbounded ones.
\<close>

subsection \<open>Models\<close>

type_synonym timestamp = nat

record configuration_item =
  ci_id :: int
  ci_name :: string
  ci_type :: string
  status :: string
  owner :: "string option"
  ip_location :: "string option"
  description :: "string option"
  last_updated :: "timestamp option"

record relationship =
  rel_id :: int
  source_ci_id :: int
  target_ci_id :: int
  relationship_type :: string

record database =
  ci_rows :: "configuration_item list"
  rel_rows :: "relationship list"

definition empty_db :: database where
  "empty_db = \<lparr>ci_rows = [], rel_rows = []\<rparr>"

text \<open>
  The attribute values assigned to a \<open>ConfigurationItem\<close> object before it is flushed.
  Any of them may still be \<open>None\<close>; the NOT NULL columns are checked at the flush.
\<close>

record ci_values =
  v_ci_name :: "string option"
  v_ci_type :: "string option"
  v_status :: "string option"
  v_owner :: "string option"
  v_ip_location :: "string option"
  v_description :: "string option"

subsection \<open>Storage primitives\<close>

datatype integrity_error = NotNullViolation | UniqueViolation | CheckViolation

text \<open>The row with a given primary key, as an attribute load through a stored key finds it.\<close>

definition find_ci :: "int \<Rightarrow> database \<Rightarrow> configuration_item option" where
  "find_ci i db = find (\<lambda>c. ci_id c = i) (ci_rows db)"

definition find_rel :: "int \<Rightarrow> database \<Rightarrow> relationship option" where
  "find_rel i db = find (\<lambda>r. rel_id r = i) (rel_rows db)"

text \<open>
  An SQLite INTEGER is a signed 64-bit number. The driver refuses to bind any other
  Python integer and raises \<open>OverflowError\<close>.
\<close>

definition sqlite_int :: "int \<Rightarrow> bool" where
  "sqlite_int i = (- 9223372036854775808 \<le> i \<and> i \<le> 9223372036854775807)"

datatype py_exception = OverflowError

text \<open>
  \<open>db.session.get(Model, pk)\<close>: the row with that primary key, or \<open>None\<close>, or the
  exception of the driver. The ids of stored rows are SQLite integers, so the exception is
  the outcome for a key outside the range, which no row has.
\<close>

definition session_get_ci :: "int \<Rightarrow> database \<Rightarrow> py_exception + configuration_item option" where
  "session_get_ci i db =
     (case find_ci i db of
        Some c \<Rightarrow> Inr (Some c)
      | None \<Rightarrow> if sqlite_int i then Inr None else Inl OverflowError)"

definition session_get_rel :: "int \<Rightarrow> database \<Rightarrow> py_exception + relationship option" where
  "session_get_rel i db =
     (case find_rel i db of
        Some r \<Rightarrow> Inr (Some r)
      | None \<Rightarrow> if sqlite_int i then Inr None else Inl OverflowError)"

text \<open>
  SQLite gives a new row of an \<open>INTEGER PRIMARY KEY\<close> table the largest rowid in use
  plus one, and 1 in an empty table.
\<close>

fun next_rowid :: "int list \<Rightarrow> int" where
  "next_rowid [] = 1"
| "next_rowid (x # xs) = fold max xs x + 1"

text \<open>
  INSERT of a configuration item: the NOT NULL columns, then the UNIQUE index on
  \<open>ci_name\<close>; \<open>last_updated\<close> takes its default, the clock.
\<close>

definition insert_ci ::
  "timestamp \<Rightarrow> ci_values \<Rightarrow> database \<Rightarrow> integrity_error + (configuration_item \<times> database)" where
  "insert_ci now v db =
     (case (v_ci_name v, v_ci_type v, v_status v) of
        (Some n, Some t, Some s) \<Rightarrow>
          if n \<in> set (map ci_name (ci_rows db)) then Inl UniqueViolation
          else
            let row = \<lparr>ci_id = next_rowid (map ci_id (ci_rows db)), ci_name = n, ci_type = t,
                       status = s, owner = v_owner v, ip_location = v_ip_location v,
                       description = v_description v, last_updated = Some now\<rparr>
            in Inr (row, db\<lparr>ci_rows := ci_rows db @ [row]\<rparr>)
      | _ \<Rightarrow> Inl NotNullViolation)"

text \<open>
  Commit of a modified configuration item. No UPDATE is emitted when no attribute has a
  new value, and then \<open>onupdate\<close> does not fire. Otherwise the NOT NULL columns and the
  UNIQUE index (against the other rows) are checked and \<open>last_updated\<close> is refreshed.
\<close>

definition update_ci_row ::
  "timestamp \<Rightarrow> configuration_item \<Rightarrow> ci_values \<Rightarrow> database
     \<Rightarrow> integrity_error + (configuration_item \<times> database)" where
  "update_ci_row now ci v db =
     (case (v_ci_name v, v_ci_type v, v_status v) of
        (Some n, Some t, Some s) \<Rightarrow>
          let row = ci\<lparr>ci_name := n, ci_type := t, status := s, owner := v_owner v,
                       ip_location := v_ip_location v, description := v_description v\<rparr>
          in if row = ci then Inr (ci, db)
             else if n \<in> set (map ci_name (filter (\<lambda>c. ci_id c \<noteq> ci_id ci) (ci_rows db)))
             then Inl UniqueViolation
             else
               let row' = row\<lparr>last_updated := Some now\<rparr>
               in Inr (row', db\<lparr>ci_rows :=
                         map (\<lambda>c. if ci_id c = ci_id ci then row' else c) (ci_rows db)\<rparr>)
      | _ \<Rightarrow> Inl NotNullViolation)"

text \<open>
  \<open>db.session.delete(ci)\<close> and commit. Both relationship collections of the model carry
  \<open>cascade="all, delete-orphan"\<close>, so the unit of work deletes the rows of
  \<open>source_relationships\<close> and \<open>target_relationships\<close> together with the item.
\<close>

definition session_delete_ci :: "configuration_item \<Rightarrow> database \<Rightarrow> database" where
  "session_delete_ci ci db =
     db\<lparr>ci_rows := filter (\<lambda>c. ci_id c \<noteq> ci_id ci) (ci_rows db),
        rel_rows := filter (\<lambda>r. source_ci_id r \<noteq> ci_id ci \<and> target_ci_id r \<noteq> ci_id ci)
                      (rel_rows db)\<rparr>"

text \<open>INSERT of a relationship: the CHECK constraint \<open>ck_not_self_referential\<close>.\<close>

definition insert_relationship ::
  "int \<Rightarrow> int \<Rightarrow> string \<Rightarrow> database \<Rightarrow> integrity_error + (relationship \<times> database)" where
  "insert_relationship s t ty db =
     (if s = t then Inl CheckViolation
      else
        let row = \<lparr>rel_id = next_rowid (map rel_id (rel_rows db)), source_ci_id = s,
                   target_ci_id = t, relationship_type = ty\<rparr>
        in Inr (row, db\<lparr>rel_rows := rel_rows db @ [row]\<rparr>))"

definition session_delete_rel :: "relationship \<Rightarrow> database \<Rightarrow> database" where
  "session_delete_rel rel db =
     db\<lparr>rel_rows := filter (\<lambda>r. rel_id r \<noteq> rel_id rel) (rel_rows db)\<rparr>"

subsection \<open>Case folding and LIKE\<close>

text \<open>
  SQLite's \<open>lower()\<close> and the comparison of its LIKE operator fold the 26 ASCII letters
  only. \<open>str.lower()\<close> of the direction parameter is modelled by the same function: the
  handler compares the result with three ASCII words only.
\<close>

definition lower_char :: "char \<Rightarrow> char" where
  "lower_char c =
     (case map_of (zip ''ABCDEFGHIJKLMNOPQRSTUVWXYZ'' ''abcdefghijklmnopqrstuvwxyz'') c of
        Some l \<Rightarrow> l
      | None \<Rightarrow> c)"

definition lower :: "string \<Rightarrow> string" where
  "lower s = map lower_char s"











subsection \<open>Requests and responses\<close>

text \<open>
  A JSON object is an association list. The values of a configuration item's payload are
  strings or \<open>null\<close>; the values of a relationship's payload are integers, strings or
  \<open>null\<close>. Query-string arguments and form fields are strings.
\<close>

type_synonym ci_payload = "(string \<times> string option) list"

datatype json = JNull | JInt int | JStr string

type_synonym rel_payload = "(string \<times> json) list"

type_synonym args = "(string \<times> string) list"

definition dict_has :: "('k \<times> 'v) list \<Rightarrow> 'k \<Rightarrow> bool" where
  "dict_has data field = (map_of data field \<noteq> None)"

text \<open>\<open>data.get(field)\<close> on a payload of nullable strings: \<open>None\<close> when the key is absent.\<close>

definition dict_get :: "ci_payload \<Rightarrow> string \<Rightarrow> string option" where
  "dict_get data field = (case map_of data field of None \<Rightarrow> None | Some v \<Rightarrow> v)"

definition json_get :: "rel_payload \<Rightarrow> string \<Rightarrow> json" where
  "json_get data field = (case map_of data field of None \<Rightarrow> JNull | Some v \<Rightarrow> v)"

text \<open>Python's truth value of a string or \<open>None\<close>.\<close>

definition truthy :: "string option \<Rightarrow> bool" where
  "truthy v = (case v of None \<Rightarrow> False | Some s \<Rightarrow> s \<noteq> [])"

record ci_dict =
  d_id :: int
  d_ci_name :: string
  d_ci_type :: string
  d_status :: string
  d_owner :: "string option"
  d_ip_location :: "string option"
  d_description :: "string option"
  d_last_updated :: "timestamp option"

record rel_dict =
  d_rel_id :: int
  d_source_ci_id :: int
  d_source_ci_name :: string
  d_target_ci_id :: int
  d_target_ci_name :: string
  d_relationship_type :: string

datatype error_message =
    NoInputData
  | MissingRequiredFields "string list"
  | NameAlreadyExists "string option"
  | NamingConflict "string option"
  | CINotFound int
  | IdsMustBeIntegers
  | SameSourceAndTarget
  | InvalidRelationshipType
  | SourceCINotFound int
  | TargetCINotFound int
  | SelfReferentialConstraint
  | DatabaseIntegrityError
  | RelationshipNotFound int
  | InvalidDirection
  | UnexpectedErrorRetrievingCIs

datatype body =
    ErrorBody error_message
  | CIBody ci_dict
  | CIListBody "ci_dict list"
  | RelBody rel_dict
  | RelListBody "rel_dict list"
  | EmptyBody
  | InternalServerError

type_synonym response = "body \<times> nat"

text \<open>
  An exception that no handler catches: Flask answers with its own page for an internal
  server error.
\<close>

definition unhandled :: response where
  "unhandled = (InternalServerError, 500)"

definition ci_to_dict :: "configuration_item \<Rightarrow> ci_dict" where
  "ci_to_dict ci =
     \<lparr>d_id = ci_id ci, d_ci_name = ci_name ci, d_ci_type = ci_type ci, d_status = status ci,
      d_owner = owner ci, d_ip_location = ip_location ci, d_description = description ci,
      d_last_updated = (case last_updated ci of None \<Rightarrow> None | Some t \<Rightarrow> Some t)\<rparr>"

text \<open>\<open>rel.source_ci\<close> and \<open>rel.target_ci\<close> are loaded through the stored foreign keys.\<close>

definition relationship_to_dict :: "database \<Rightarrow> relationship \<Rightarrow> rel_dict" where
  "relationship_to_dict db rel =
     \<lparr>d_rel_id = rel_id rel,
      d_source_ci_id = source_ci_id rel,
      d_source_ci_name =
        (case find_ci (source_ci_id rel) db of Some c \<Rightarrow> ci_name c | None \<Rightarrow> ''N/A''),
      d_target_ci_id = target_ci_id rel,
      d_target_ci_name =
        (case find_ci (target_ci_id rel) db of Some c \<Rightarrow> ci_name c | None \<Rightarrow> ''N/A''),
      d_relationship_type = relationship_type rel\<rparr>"

definition ALLOWED_RELATIONSHIP_TYPES :: "string list" where
  "ALLOWED_RELATIONSHIP_TYPES = [''Depends on'', ''Hosts'', ''Connected to'', ''Runs on'', ''Provides'']"


subsection \<open>API endpoints for configuration items\<close>

definition create_ci :: "timestamp \<Rightarrow> ci_payload \<Rightarrow> database \<Rightarrow> response \<times> database" where
  "create_ci now data db =
     (if data = [] then ((ErrorBody NoInputData, 400), db)
      else
        let missing_fields =
              filter (\<lambda>field. \<not> dict_has data field \<or> \<not> truthy (dict_get data field))
                [''ci_name'', ''ci_type'', ''status'']
        in if missing_fields \<noteq> [] then ((ErrorBody (MissingRequiredFields missing_fields), 400), db)
           else
             let new_ci = \<lparr>v_ci_name = dict_get data ''ci_name'',
                           v_ci_type = dict_get data ''ci_type'',
                           v_status = dict_get data ''status'',
                           v_owner = dict_get data ''owner'',
                           v_ip_location = dict_get data ''ip_location'',
                           v_description = dict_get data ''description''\<rparr>
             in (case insert_ci now new_ci db of
                   Inl e \<Rightarrow> ((ErrorBody (NameAlreadyExists (dict_get data ''ci_name'')), 400), db)
                 | Inr (row, db') \<Rightarrow> ((CIBody (ci_to_dict row), 201), db')))"

definition get_ci :: "int \<Rightarrow> database \<Rightarrow> response" where
  "get_ci cid db =
     (case session_get_ci cid db of
        Inl e \<Rightarrow> unhandled
      | Inr (Some ci) \<Rightarrow> (CIBody (ci_to_dict ci), 200)
      | Inr None \<Rightarrow> (ErrorBody (CINotFound cid), 404))"

text \<open>
  The assignments of \<open>update_ci\<close>: an attribute takes the payload's value when its key is
  in the payload, and keeps its value otherwise.
\<close>

definition assign_fields :: "configuration_item \<Rightarrow> ci_payload \<Rightarrow> ci_values" where
  "assign_fields ci data =
     \<lparr>v_ci_name = (if dict_has data ''ci_name'' then dict_get data ''ci_name''
                   else Some (ci_name ci)),
      v_ci_type = (if dict_has data ''ci_type'' then dict_get data ''ci_type''
                   else Some (ci_type ci)),
      v_status = (if dict_has data ''status'' then dict_get data ''status''
                  else Some (status ci)),
      v_owner = (if dict_has data ''owner'' then dict_get data ''owner'' else owner ci),
      v_ip_location = (if dict_has data ''ip_location'' then dict_get data ''ip_location''
                       else ip_location ci),
      v_description = (if dict_has data ''description'' then dict_get data ''description''
                       else description ci)\<rparr>"

definition update_ci :: "timestamp \<Rightarrow> int \<Rightarrow> ci_payload \<Rightarrow> database \<Rightarrow> response \<times> database" where
  "update_ci now cid data db =
     (case session_get_ci cid db of
        Inl e \<Rightarrow> (unhandled, db)
      | Inr None \<Rightarrow> ((ErrorBody (CINotFound cid), 404), db)
      | Inr (Some ci) \<Rightarrow>
          if data = [] then ((ErrorBody NoInputData, 400), db)
          else if dict_has data ''ci_name''
                  \<and> dict_get data ''ci_name'' \<noteq> Some (ci_name ci)
                  \<and> find (\<lambda>c. Some (ci_name c) = dict_get data ''ci_name'') (ci_rows db) \<noteq> None
          then ((ErrorBody (NameAlreadyExists (dict_get data ''ci_name'')), 400), db)
          else
            (case update_ci_row now ci (assign_fields ci data) db of
               Inl e \<Rightarrow> ((ErrorBody (NamingConflict (dict_get data ''ci_name'')), 400), db)
             | Inr (row, db') \<Rightarrow> ((CIBody (ci_to_dict row), 200), db')))"

text \<open>The lookup of \<open>delete_ci\<close> stands before its \<open>try\<close>.\<close>

definition delete_ci :: "int \<Rightarrow> database \<Rightarrow> response \<times> database" where
  "delete_ci cid db =
     (case session_get_ci cid db of
        Inl e \<Rightarrow> (unhandled, db)
      | Inr None \<Rightarrow> ((ErrorBody (CINotFound cid), 404), db)
      | Inr (Some ci) \<Rightarrow> ((EmptyBody, 204), session_delete_ci ci db))"


subsection \<open>API endpoints for relationships\<close>

text \<open>\<open>relationship_type not in ALLOWED_RELATIONSHIP_TYPES\<close>, on a JSON value.\<close>

definition allowed_type :: "json \<Rightarrow> string option" where
  "allowed_type j =
     (case j of
        JStr s \<Rightarrow> if s \<in> set ALLOWED_RELATIONSHIP_TYPES then Some s else None
      | _ \<Rightarrow> None)"

definition create_relationship :: "rel_payload \<Rightarrow> database \<Rightarrow> response \<times> database" where
  "create_relationship data db =
     (if data = [] then ((ErrorBody NoInputData, 400), db)
      else
        let missing_fields =
              filter (\<lambda>field. \<not> dict_has data field)
                [''source_ci_id'', ''target_ci_id'', ''relationship_type'']
        in if missing_fields \<noteq> [] then ((ErrorBody (MissingRequiredFields missing_fields), 400), db)
           else
             (case (json_get data ''source_ci_id'', json_get data ''target_ci_id'') of
                (JInt source_id, JInt target_id) \<Rightarrow>
                  if source_id = target_id then ((ErrorBody SameSourceAndTarget, 400), db)
                  else
                    (case allowed_type (json_get data ''relationship_type'') of
                       None \<Rightarrow> ((ErrorBody InvalidRelationshipType, 400), db)
                     | Some ty \<Rightarrow>
                         (case (session_get_ci source_id db, session_get_ci target_id db) of
                            (Inr source_ci, Inr target_ci) \<Rightarrow>
                              if source_ci = None
                              then ((ErrorBody (SourceCINotFound source_id), 404), db)
                              else if target_ci = None
                              then ((ErrorBody (TargetCINotFound target_id), 404), db)
                              else
                                (case insert_relationship source_id target_id ty db of
                                   Inl e \<Rightarrow>
                                     if e = CheckViolation
                                     then ((ErrorBody SelfReferentialConstraint, 400), db)
                                     else ((ErrorBody DatabaseIntegrityError, 400), db)
                                 | Inr (row, db') \<Rightarrow>
                                     ((RelBody (relationship_to_dict db' row), 201), db'))
                          | _ \<Rightarrow> (unhandled, db)))
              | _ \<Rightarrow> ((ErrorBody IdsMustBeIntegers, 400), db)))"

definition get_relationship :: "int \<Rightarrow> database \<Rightarrow> response" where
  "get_relationship rid db =
     (case session_get_rel rid db of
        Inl e \<Rightarrow> unhandled
      | Inr (Some rel) \<Rightarrow> (RelBody (relationship_to_dict db rel), 200)
      | Inr None \<Rightarrow> (ErrorBody (RelationshipNotFound rid), 404))"

definition delete_relationship :: "int \<Rightarrow> database \<Rightarrow> response \<times> database" where
  "delete_relationship rid db =
     (case session_get_rel rid db of
        Inl e \<Rightarrow> (unhandled, db)
      | Inr None \<Rightarrow> ((ErrorBody (RelationshipNotFound rid), 404), db)
      | Inr (Some rel) \<Rightarrow> ((EmptyBody, 204), session_delete_rel rel db))"

definition get_relationships_for_ci :: "int \<Rightarrow> args \<Rightarrow> database \<Rightarrow> response" where
  "get_relationships_for_ci cid request_args db =
     (case session_get_ci cid db of
        Inl e \<Rightarrow> unhandled
      | Inr None \<Rightarrow> (ErrorBody (CINotFound cid), 404)
      | Inr (Some ci) \<Rightarrow>
          let direction =
                lower (case map_of request_args ''direction'' of None \<Rightarrow> ''all'' | Some d \<Rightarrow> d)
          in if direction = ''source''
             then (RelListBody (map (relationship_to_dict db)
                     (filter (\<lambda>r. source_ci_id r = cid) (rel_rows db))), 200)
             else if direction = ''target''
             then (RelListBody (map (relationship_to_dict db)
                     (filter (\<lambda>r. target_ci_id r = cid) (rel_rows db))), 200)
             else if direction = ''all''
             then (RelListBody (map (relationship_to_dict db)
                     (filter (\<lambda>r. source_ci_id r = cid \<or> target_ci_id r = cid) (rel_rows db))), 200)
             else (ErrorBody InvalidDirection, 400))"

subsection \<open>The pages of the user interface\<close>

text \<open>
  A page answers with a rendered form or a redirect, and a flashed message. The forms are
  modelled for the POST method, the one that changes the database; \<open>list_cis_ui\<close> yields
  the rows it hands to its template.
\<close>

datatype flash =
    RequiredFields
  | CINameExists "string option"
  | CIAdded string
  | ErrorAddingCI
  | CIIdNotFound int
  | AnotherCINameExists "string option"
  | CIUpdated string
  | ErrorUpdatingCI
  | CIDeleted string int
  | CINotFoundForDeletion int
  | RelIdNotFound int
  | RelNotInvolved int int
  | RelDeleted string string string
  | ErrorDeletingRel
  | ErrorDeletingCI int
  | ErrorFetchingCIs

text \<open>\<open>ServerErrorPage\<close> is Flask's answer to an exception that the handler does not catch.\<close>

datatype page = RenderForm flash | RedirectList flash | RedirectView int flash | ServerErrorPage


definition add_ci_ui :: "timestamp \<Rightarrow> args \<Rightarrow> database \<Rightarrow> page \<times> database" where
  "add_ci_ui now form db =
     (let name = map_of form ''ci_name'';
          type = map_of form ''ci_type'';
          stat = map_of form ''status''
      in if \<not> truthy name \<or> \<not> truthy type \<or> \<not> truthy stat then (RenderForm RequiredFields, db)
         else if find (\<lambda>c. Some (ci_name c) = name) (ci_rows db) \<noteq> None
         then (RenderForm (CINameExists name), db)
         else
           (case insert_ci now
                   \<lparr>v_ci_name = name, v_ci_type = type, v_status = stat,
                    v_owner = map_of form ''owner'',
                    v_ip_location = map_of form ''ip_location'',
                    v_description = map_of form ''description''\<rparr> db of
              Inl e \<Rightarrow> (RenderForm ErrorAddingCI, db)
            | Inr (row, db') \<Rightarrow> (RedirectList (CIAdded (ci_name row)), db')))"

definition edit_ci_ui :: "timestamp \<Rightarrow> int \<Rightarrow> args \<Rightarrow> database \<Rightarrow> page \<times> database" where
  "edit_ci_ui now cid form db =
     (case session_get_ci cid db of
        Inl e \<Rightarrow> (ServerErrorPage, db)
      | Inr None \<Rightarrow> (RedirectList (CIIdNotFound cid), db)
      | Inr (Some ci_to_edit) \<Rightarrow>
          let new_name = map_of form ''ci_name'';
              new_type = map_of form ''ci_type'';
              new_status = map_of form ''status''
          in if \<not> truthy new_name \<or> \<not> truthy new_type \<or> \<not> truthy new_status
             then (RenderForm RequiredFields, db)
             else if Some (ci_name ci_to_edit) \<noteq> new_name
                     \<and> find (\<lambda>c. ci_id c \<noteq> cid \<and> Some (ci_name c) = new_name) (ci_rows db) \<noteq> None
             then (RenderForm (AnotherCINameExists new_name), db)
             else
               (case update_ci_row now ci_to_edit
                       \<lparr>v_ci_name = new_name, v_ci_type = new_type, v_status = new_status,
                        v_owner = map_of form ''owner'',
                        v_ip_location = map_of form ''ip_location'',
                        v_description = map_of form ''description''\<rparr> db of
                  Inl e \<Rightarrow> (RenderForm ErrorUpdatingCI, db)
                | Inr (row, db') \<Rightarrow> (RedirectList (CIUpdated (ci_name row)), db')))"

text \<open>The lookup of \<open>delete_ci_ui\<close> stands inside its \<open>try\<close>.\<close>

definition delete_ci_ui :: "int \<Rightarrow> database \<Rightarrow> page \<times> database" where
  "delete_ci_ui cid db =
     (case session_get_ci cid db of
        Inr (Some ci_to_delete) \<Rightarrow>
          (RedirectList (CIDeleted (ci_name ci_to_delete) cid), session_delete_ci ci_to_delete db)
      | Inr None \<Rightarrow> (RedirectList (CINotFoundForDeletion cid), db)
      | Inl e \<Rightarrow> (RedirectList (ErrorDeletingCI cid), db))"

text \<open>
  Reading \<open>rel.source_ci.ci_name\<close> of a relationship whose endpoint row is gone raises, and
  the handler's \<open>except\<close> rolls back.
\<close>

definition delete_relationship_ui :: "int \<Rightarrow> int \<Rightarrow> database \<Rightarrow> page \<times> database" where
  "delete_relationship_ui rid cid db =
     (case session_get_rel rid db of
        Inl e \<Rightarrow> (ServerErrorPage, db)
      | Inr None \<Rightarrow> (RedirectView cid (RelIdNotFound rid), db)
      | Inr (Some rel) \<Rightarrow>
          if source_ci_id rel \<noteq> cid \<and> target_ci_id rel \<noteq> cid
          then (RedirectView cid (RelNotInvolved rid cid), db)
          else
            (case (find_ci (source_ci_id rel) db, find_ci (target_ci_id rel) db) of
               (Some s, Some t) \<Rightarrow>
                 (RedirectView cid (RelDeleted (ci_name s) (relationship_type rel) (ci_name t)),
                  session_delete_rel rel db)
             | _ \<Rightarrow> (RedirectView cid ErrorDeletingRel, db)))"

subsection \<open>Integrity of the stored state\<close>

text \<open>
  The primary keys of both tables and the UNIQUE index on \<open>ci_name\<close>.
\<close>

definition wf_db :: "database \<Rightarrow> bool" where
  "wf_db db =
     (distinct (map ci_id (ci_rows db)) \<and> distinct (map ci_name (ci_rows db))
      \<and> distinct (map rel_id (rel_rows db)))"

text \<open>The primary keys that the tables hold are SQLite integers.\<close>

definition sqlite_ids :: "database \<Rightarrow> bool" where
  "sqlite_ids db =
     (list_all (\<lambda>c. sqlite_int (ci_id c)) (ci_rows db)
      \<and> list_all (\<lambda>r. sqlite_int (rel_id r)) (rel_rows db))"


subsection \<open>Reachable states\<close>

text \<open>
  The states the handlers can produce from the empty database that \<open>init-db\<close> leaves.
\<close>

inductive reachable :: "database \<Rightarrow> bool" where
  init_db: "reachable empty_db"
| api_create_ci: "reachable db \<Longrightarrow> reachable (snd (create_ci now data db))"
| api_update_ci: "reachable db \<Longrightarrow> reachable (snd (update_ci now cid data db))"
| api_delete_ci: "reachable db \<Longrightarrow> reachable (snd (delete_ci cid db))"
| api_create_relationship: "reachable db \<Longrightarrow> reachable (snd (create_relationship rdata db))"
| api_delete_relationship: "reachable db \<Longrightarrow> reachable (snd (delete_relationship rid db))"
| ui_add_ci: "reachable db \<Longrightarrow> reachable (snd (add_ci_ui now form db))"
| ui_edit_ci: "reachable db \<Longrightarrow> reachable (snd (edit_ci_ui now cid form db))"
| ui_delete_ci: "reachable db \<Longrightarrow> reachable (snd (delete_ci_ui cid db))"
| ui_delete_relationship: "reachable db \<Longrightarrow> reachable (snd (delete_relationship_ui rid cid db))"

subsection \<open>A worked scenario\<close>

text \<open>
  Two items A and B are created through the API, then the relationship A \<open>Depends on\<close> B.
\<close>

definition payload_A :: ci_payload where
  "payload_A = [(''ci_name'', Some ''WebServer-Prod-01''), (''ci_type'', Some ''Server''),
                (''status'', Some ''Active''), (''owner'', Some ''InfraTeam''),
                (''ip_location'', Some ''10.0.1.10'')]"

definition payload_B :: ci_payload where
  "payload_B = [(''ci_name'', Some ''CustomerDB-Prod-01''), (''ci_type'', Some ''Database''),
                (''status'', Some ''Active''), (''owner'', Some ''DBTeam'')]"

definition payload_A_to_B :: rel_payload where
  "payload_A_to_B = [(''source_ci_id'', JInt 1), (''target_ci_id'', JInt 2),
                     (''relationship_type'', JStr ''Depends on'')]"

definition db_A :: database where
  "db_A = snd (create_ci 1 payload_A empty_db)"

definition db_AB :: database where
  "db_AB = snd (create_ci 2 payload_B db_A)"

definition db_AB_rel :: database where
  "db_AB_rel = snd (create_relationship payload_A_to_B db_AB)"

definition row_A :: configuration_item where
  "row_A = \<lparr>ci_id = 1, ci_name = ''WebServer-Prod-01'', ci_type = ''Server'',
            status = ''Active'', owner = Some ''InfraTeam'', ip_location = Some ''10.0.1.10'',
            description = None, last_updated = Some 1\<rparr>"

definition row_B :: configuration_item where
  "row_B = \<lparr>ci_id = 2, ci_name = ''CustomerDB-Prod-01'', ci_type = ''Database'',
            status = ''Active'', owner = Some ''DBTeam'', ip_location = None,
            description = None, last_updated = Some 2\<rparr>"

definition row_A_to_B :: relationship where
  "row_A_to_B = \<lparr>rel_id = 1, source_ci_id = 1, target_ci_id = 2,
                 relationship_type = ''Depends on''\<rparr>"

subsection \<open>The filter of a listing, as specified\<close>








section \<open>Properties of the storage primitives\<close>

lemma fold_max_ge: "(a::int) \<le> fold max xs a \<and> (\<forall>x\<in>set xs. x \<le> fold max xs a)"
proof (induction xs arbitrary: a)
  case Nil
  show ?case by simp
next
  case (Cons y ys)
  have "max y a \<le> fold max ys (max y a)" and "\<forall>x\<in>set ys. x \<le> fold max ys (max y a)"
    using Cons.IH [of "max y a"] by simp_all
  then show ?case by auto
qed

lemma next_rowid_greater: "x \<in> set xs \<Longrightarrow> x < next_rowid xs"
proof (cases xs)
  case Nil
  assume "x \<in> set xs"
  with Nil show ?thesis by simp
next
  case (Cons y ys)
  assume "x \<in> set xs"
  with Cons fold_max_ge [of y ys] show ?thesis by auto
qed

lemma next_rowid_fresh: "next_rowid xs \<notin> set xs"
  using next_rowid_greater [of "next_rowid xs" xs] by auto

lemma find_ci_Some: "find_ci i db = Some c \<Longrightarrow> c \<in> set (ci_rows db) \<and> ci_id c = i"
  by (auto simp: find_ci_def find_Some_iff)

lemma find_ci_None: "find_ci i db = None \<longleftrightarrow> i \<notin> set (map ci_id (ci_rows db))"
  by (auto simp: find_ci_def find_None_iff)

lemma find_rel_Some: "find_rel i db = Some r \<Longrightarrow> r \<in> set (rel_rows db) \<and> rel_id r = i"
  by (auto simp: find_rel_def find_Some_iff)

lemma find_rel_None: "find_rel i db = None \<longleftrightarrow> i \<notin> set (map rel_id (rel_rows db))"
  by (auto simp: find_rel_def find_None_iff)

lemma session_get_ci_found: "session_get_ci i db = Inr (Some c) \<longleftrightarrow> find_ci i db = Some c"
  by (auto simp: session_get_ci_def split: option.splits)

lemma session_get_ci_Some:
  "session_get_ci i db = Inr (Some c) \<Longrightarrow> c \<in> set (ci_rows db) \<and> ci_id c = i"
  by (simp add: session_get_ci_found find_ci_Some)

lemma session_get_ci_None:
  "session_get_ci i db = Inr None \<longleftrightarrow> i \<notin> set (map ci_id (ci_rows db)) \<and> sqlite_int i"
  using find_ci_None [of i db] by (cases "find_ci i db") (simp_all add: session_get_ci_def)

lemma session_get_ci_raises:
  "session_get_ci i db = Inl e \<longleftrightarrow> i \<notin> set (map ci_id (ci_rows db)) \<and> \<not> sqlite_int i"
  using find_ci_None [of i db] by (cases e; cases "find_ci i db") (simp_all add: session_get_ci_def)

lemma session_get_rel_found: "session_get_rel i db = Inr (Some r) \<longleftrightarrow> find_rel i db = Some r"
  by (auto simp: session_get_rel_def split: option.splits)

lemma session_get_rel_Some:
  "session_get_rel i db = Inr (Some r) \<Longrightarrow> r \<in> set (rel_rows db) \<and> rel_id r = i"
  by (simp add: session_get_rel_found find_rel_Some)

lemma session_get_rel_None:
  "session_get_rel i db = Inr None \<longleftrightarrow> i \<notin> set (map rel_id (rel_rows db)) \<and> sqlite_int i"
  using find_rel_None [of i db] by (cases "find_rel i db") (simp_all add: session_get_rel_def)

lemma insert_ci_wf:
  assumes "insert_ci now v db = Inr (row, db')" and "wf_db db"
  shows "wf_db db'"
  using assms next_rowid_fresh [of "map ci_id (ci_rows db)"]
  by (auto simp: insert_ci_def wf_db_def Let_def split: option.splits if_splits)

lemma distinct_names_replace:
  assumes "distinct (map ci_id rows)" and "distinct (map ci_name rows)"
    and "ci_name row' \<notin> set (map ci_name (filter (\<lambda>c. ci_id c \<noteq> i) rows))"
  shows "distinct (map ci_name (map (\<lambda>c. if ci_id c = i then row' else c) rows))"
  using assms
proof (induction rows)
  case Nil
  show ?case by simp
next
  case (Cons c cs)
  show ?case
  proof (cases "ci_id c = i")
    case True
    from Cons.prems(1) True have "i \<notin> ci_id ` set cs" by simp
    then have "\<forall>x\<in>set cs. ci_id x \<noteq> i" by blast
    then have same: "map (\<lambda>c. if ci_id c = i then row' else c) cs = cs"
      by (simp add: map_idI)
    have "filter (\<lambda>c. ci_id c \<noteq> i) cs = cs"
      using \<open>\<forall>x\<in>set cs. ci_id x \<noteq> i\<close> by (simp add: filter_id_conv)
    with Cons.prems True have "ci_name row' \<notin> set (map ci_name cs)" by simp
    with Cons.prems True same show ?thesis by simp
  next
    case False
    with Cons.prems have ih: "distinct (map ci_name (map (\<lambda>c. if ci_id c = i then row' else c) cs))"
      by (intro Cons.IH) auto
    from Cons.prems False have "ci_name c \<noteq> ci_name row'" and "ci_name c \<notin> set (map ci_name cs)"
      by auto
    then have "ci_name c \<noteq> ci_name (if ci_id x = i then row' else x)" if "x \<in> set cs" for x
      using that by (cases "ci_id x = i") auto
    then have "ci_name c \<notin> set (map ci_name (map (\<lambda>c. if ci_id c = i then row' else c) cs))"
      by (auto simp del: if_split simp: image_iff)
    with ih False show ?thesis by simp
  qed
qed

lemma ids_replace:
  "ci_id row' = i \<Longrightarrow> map ci_id (map (\<lambda>c. if ci_id c = i then row' else c) rows) = map ci_id rows"
  by (induction rows) auto

lemma update_ci_row_wf:
  assumes "update_ci_row now ci v db = Inr (row, db')" and "wf_db db"
  shows "wf_db db'"
proof (cases "db' = db")
  case True
  with assms show ?thesis by simp
next
  case False
  with assms(1) obtain n t s where
      row: "ci_name row = n" "ci_id row = ci_id ci"
    and fresh: "n \<notin> set (map ci_name (filter (\<lambda>c. ci_id c \<noteq> ci_id ci) (ci_rows db)))"
    and db': "db' = db\<lparr>ci_rows := map (\<lambda>c. if ci_id c = ci_id ci then row else c) (ci_rows db)\<rparr>"
    by (auto simp: update_ci_row_def Let_def split: option.splits if_splits)
  have "distinct (map ci_name (map (\<lambda>c. if ci_id c = ci_id ci then row else c) (ci_rows db)))"
    using assms(2) fresh row by (intro distinct_names_replace) (simp_all add: wf_db_def)
  moreover have "map ci_id (map (\<lambda>c. if ci_id c = ci_id ci then row else c) (ci_rows db))
                   = map ci_id (ci_rows db)"
    using row by (intro ids_replace) simp
  ultimately show ?thesis using assms(2) db' by (simp add: wf_db_def del: map_map)
qed

lemma session_delete_ci_wf: "wf_db db \<Longrightarrow> wf_db (session_delete_ci ci db)"
  by (simp add: wf_db_def session_delete_ci_def distinct_map_filter)

lemma insert_relationship_wf:
  assumes "insert_relationship s t ty db = Inr (row, db')" and "wf_db db"
  shows "wf_db db'"
  using assms next_rowid_fresh [of "map rel_id (rel_rows db)"]
  by (auto simp: insert_relationship_def wf_db_def Let_def split: if_splits)

lemma session_delete_rel_wf: "wf_db db \<Longrightarrow> wf_db (session_delete_rel rel db)"
  by (simp add: wf_db_def session_delete_rel_def distinct_map_filter)

section \<open>Every handler keeps the stored state well formed\<close>

lemma create_ci_wf: "wf_db db \<Longrightarrow> wf_db (snd (create_ci now data db))"
  by (auto simp: create_ci_def Let_def dest: insert_ci_wf split: sum.splits)

lemma update_ci_wf: "wf_db db \<Longrightarrow> wf_db (snd (update_ci now cid data db))"
  by (auto simp: update_ci_def Let_def dest: update_ci_row_wf split: sum.splits option.splits)

lemma delete_ci_wf: "wf_db db \<Longrightarrow> wf_db (snd (delete_ci cid db))"
  by (auto simp: delete_ci_def session_delete_ci_wf split: option.splits sum.splits)

lemma create_relationship_wf: "wf_db db \<Longrightarrow> wf_db (snd (create_relationship data db))"
  by (auto simp: create_relationship_def Let_def dest: insert_relationship_wf
           split: sum.splits option.splits json.splits)

lemma delete_relationship_wf: "wf_db db \<Longrightarrow> wf_db (snd (delete_relationship rid db))"
  by (auto simp: delete_relationship_def session_delete_rel_wf split: option.splits sum.splits)

lemma add_ci_ui_wf: "wf_db db \<Longrightarrow> wf_db (snd (add_ci_ui now form db))"
  by (auto simp: add_ci_ui_def Let_def dest: insert_ci_wf split: sum.splits)

lemma edit_ci_ui_wf: "wf_db db \<Longrightarrow> wf_db (snd (edit_ci_ui now cid form db))"
  by (auto simp: edit_ci_ui_def Let_def dest: update_ci_row_wf split: sum.splits option.splits)

lemma delete_ci_ui_wf: "wf_db db \<Longrightarrow> wf_db (snd (delete_ci_ui cid db))"
  by (auto simp: delete_ci_ui_def session_delete_ci_wf split: option.splits sum.splits)

lemma delete_relationship_ui_wf: "wf_db db \<Longrightarrow> wf_db (snd (delete_relationship_ui rid cid db))"
  by (auto simp: delete_relationship_ui_def session_delete_rel_wf split: option.splits sum.splits)


lemma reachable_wf: "reachable db \<Longrightarrow> wf_db db"
proof (induction rule: reachable.induct)
  case init_db
  show ?case by (simp add: wf_db_def empty_db_def)
qed (simp_all add: create_ci_wf update_ci_wf delete_ci_wf create_relationship_wf
       delete_relationship_wf add_ci_ui_wf edit_ci_ui_wf delete_ci_ui_wf
       delete_relationship_ui_wf)

section \<open>The worked scenario, evaluated\<close>

lemma db_A_eq: "db_A = \<lparr>ci_rows = [row_A], rel_rows = []\<rparr>"
  by (simp add: db_A_def create_ci_def payload_A_def empty_db_def dict_has_def dict_get_def
        truthy_def insert_ci_def row_A_def Let_def)

lemma db_AB_eq: "db_AB = \<lparr>ci_rows = [row_A, row_B], rel_rows = []\<rparr>"
  by (simp add: db_AB_def db_A_eq create_ci_def payload_B_def dict_has_def dict_get_def
        truthy_def insert_ci_def row_A_def row_B_def Let_def)

lemma db_AB_rel_eq: "db_AB_rel = \<lparr>ci_rows = [row_A, row_B], rel_rows = [row_A_to_B]\<rparr>"
  by (simp add: db_AB_rel_def db_AB_eq create_relationship_def payload_A_to_B_def dict_has_def
        json_get_def allowed_type_def ALLOWED_RELATIONSHIP_TYPES_def session_get_ci_def
        find_ci_def insert_relationship_def row_A_def row_B_def row_A_to_B_def Let_def)

lemma reachable_db_AB_rel: "reachable db_AB_rel"
  unfolding db_AB_rel_def db_AB_def db_A_def
  by (intro reachable.api_create_relationship reachable.api_create_ci reachable.init_db)

lemma wf_db_AB_rel: "wf_db db_AB_rel"
  by (rule reachable_wf [OF reachable_db_AB_rel])

section \<open>Cascading deletion\<close>

lemma sqlite_ids_AB_rel: "sqlite_ids db_AB_rel"
  by (simp add: sqlite_ids_def sqlite_int_def db_AB_rel_eq row_A_def row_B_def row_A_to_B_def)

lemma get_ci_after_delete:
  "get_ci X (session_delete_ci ci db) = (ErrorBody (CINotFound X), 404)"
  if "ci_id ci = X" and "sqlite_int X"
proof -
  have "X \<notin> set (map ci_id (ci_rows (session_delete_ci ci db)))"
    using that(1) by (auto simp: session_delete_ci_def)
  with that(2) have "session_get_ci X (session_delete_ci ci db) = Inr None"
    by (simp only: session_get_ci_None) simp
  then show ?thesis by (simp add: get_ci_def)
qed

lemma get_relationship_after_delete:
  assumes "distinct (map rel_id (rel_rows db))" and "r \<in> set (rel_rows db)"
    and "source_ci_id r = ci_id ci \<or> target_ci_id r = ci_id ci"
    and "sqlite_int (rel_id r)"
  shows "get_relationship (rel_id r) (session_delete_ci ci db)
           = (ErrorBody (RelationshipNotFound (rel_id r)), 404)"
proof -
  have "r' = r" if "r' \<in> set (rel_rows db)" and "rel_id r' = rel_id r" for r'
    using assms(1,2) that by (meson distinct_map inj_onD)
  with assms(3) have "rel_id r \<notin> set (map rel_id (rel_rows (session_delete_ci ci db)))"
    by (auto simp: session_delete_ci_def)
  with assms(4) have "session_get_rel (rel_id r) (session_delete_ci ci db) = Inr None"
    by (simp only: session_get_rel_None) simp
  then show ?thesis by (simp add: get_relationship_def)
qed

text \<open>
  Claim C1, as the code has it. Deleting a configuration item cascades and is
  all-or-nothing. When an item with id \<open>X\<close> exists, \<open>delete_ci\<close> answers 204 and removes that
  item together with exactly the relationships whose source or target is \<open>X\<close>; afterwards
  \<open>get_ci X\<close> answers 404 (not found) and so does \<open>get_relationship\<close> on every removed
  relationship. When no item with id \<open>X\<close> exists, \<open>delete_ci\<close> removes nothing, and it
  answers 404 when \<open>X\<close> is an SQLite integer, that is, within the signed 64-bit range.
  The ids that the tables hold are SQLite integers (\<open>sqlite_ids\<close>).
\<close>

theorem delete_ci_cascade:
  assumes "wf_db db" and "sqlite_ids db"
  shows "(\<forall>ci. session_get_ci X db = Inr (Some ci) \<longrightarrow>
            fst (delete_ci X db) = (EmptyBody, 204)
            \<and> ci_rows (snd (delete_ci X db)) = filter (\<lambda>c. ci_id c \<noteq> X) (ci_rows db)
            \<and> rel_rows (snd (delete_ci X db))
                = filter (\<lambda>r. source_ci_id r \<noteq> X \<and> target_ci_id r \<noteq> X) (rel_rows db)
            \<and> get_ci X (snd (delete_ci X db)) = (ErrorBody (CINotFound X), 404)
            \<and> (\<forall>r\<in>set (rel_rows db). source_ci_id r = X \<or> target_ci_id r = X \<longrightarrow>
                  get_relationship (rel_id r) (snd (delete_ci X db))
                    = (ErrorBody (RelationshipNotFound (rel_id r)), 404)))
       \<and> (X \<notin> set (map ci_id (ci_rows db)) \<longrightarrow>
            snd (delete_ci X db) = db
            \<and> (sqlite_int X \<longrightarrow> delete_ci X db = ((ErrorBody (CINotFound X), 404), db)))"
proof (intro conjI allI impI)
  fix ci
  assume get: "session_get_ci X db = Inr (Some ci)"
  then have id: "ci_id ci = X" and mem: "ci \<in> set (ci_rows db)"
    by (simp_all add: session_get_ci_Some)
  from assms(2) mem id have range: "sqlite_int X"
    by (auto simp: sqlite_ids_def list_all_iff)
  have rels: "sqlite_int (rel_id r)" if "r \<in> set (rel_rows db)" for r
    using assms(2) that by (auto simp: sqlite_ids_def list_all_iff)
  have del: "delete_ci X db = ((EmptyBody, 204), session_delete_ci ci db)"
    using get by (simp add: delete_ci_def)
  show "fst (delete_ci X db) = (EmptyBody, 204)" by (simp add: del)
  show "ci_rows (snd (delete_ci X db)) = filter (\<lambda>c. ci_id c \<noteq> X) (ci_rows db)"
    by (simp add: del session_delete_ci_def id)
  show "rel_rows (snd (delete_ci X db))
          = filter (\<lambda>r. source_ci_id r \<noteq> X \<and> target_ci_id r \<noteq> X) (rel_rows db)"
    by (simp add: del session_delete_ci_def id)
  show "get_ci X (snd (delete_ci X db)) = (ErrorBody (CINotFound X), 404)"
    by (simp add: del get_ci_after_delete [OF id range])
  show "\<forall>r\<in>set (rel_rows db). source_ci_id r = X \<or> target_ci_id r = X \<longrightarrow>
          get_relationship (rel_id r) (snd (delete_ci X db))
            = (ErrorBody (RelationshipNotFound (rel_id r)), 404)"
    using assms(1) get_relationship_after_delete [of db _ ci] rels
    by (simp add: del id wf_db_def)
next
  assume no: "X \<notin> set (map ci_id (ci_rows db))"
  then have "find_ci X db = None" by (metis find_ci_None)
  then show "snd (delete_ci X db) = db"
    by (simp add: delete_ci_def session_get_ci_def)
next
  assume "X \<notin> set (map ci_id (ci_rows db))" and "sqlite_int X"
  then have "session_get_ci X db = Inr None" by (simp only: session_get_ci_None) simp
  then show "delete_ci X db = ((ErrorBody (CINotFound X), 404), db)"
    by (simp add: delete_ci_def)
qed

theorem delete_ci_cascade_witness:
  "wf_db db_AB_rel \<and> sqlite_ids db_AB_rel \<and> session_get_ci 1 db_AB_rel = Inr (Some row_A)
   \<and> row_A_to_B \<in> set (rel_rows db_AB_rel) \<and> source_ci_id row_A_to_B = 1
   \<and> fst (delete_ci 1 db_AB_rel) = (EmptyBody, 204)
   \<and> get_ci 1 (snd (delete_ci 1 db_AB_rel)) = (ErrorBody (CINotFound 1), 404)
   \<and> get_relationship 1 (snd (delete_ci 1 db_AB_rel)) = (ErrorBody (RelationshipNotFound 1), 404)
   \<and> 7 \<notin> set (map ci_id (ci_rows db_AB_rel)) \<and> sqlite_int 7
   \<and> delete_ci 7 db_AB_rel = ((ErrorBody (CINotFound 7), 404), db_AB_rel)"
proof -
  have get: "session_get_ci 1 db_AB_rel = Inr (Some row_A)"
    by (simp add: db_AB_rel_eq session_get_ci_def find_ci_def row_A_def)
  have none: "7 \<notin> set (map ci_id (ci_rows db_AB_rel))" "sqlite_int 7"
    by (simp_all add: db_AB_rel_eq sqlite_int_def row_A_def row_B_def)
  have rel: "row_A_to_B \<in> set (rel_rows db_AB_rel)" "source_ci_id row_A_to_B = 1"
    "rel_id row_A_to_B = 1"
    by (simp_all add: db_AB_rel_eq row_A_to_B_def)
  from delete_ci_cascade [OF wf_db_AB_rel sqlite_ids_AB_rel, of 1] get rel
  have "fst (delete_ci 1 db_AB_rel) = (EmptyBody, 204)"
    and "get_ci 1 (snd (delete_ci 1 db_AB_rel)) = (ErrorBody (CINotFound 1), 404)"
    and "get_relationship 1 (snd (delete_ci 1 db_AB_rel)) = (ErrorBody (RelationshipNotFound 1), 404)"
    by (simp, simp, metis)
  moreover from delete_ci_cascade [OF wf_db_AB_rel sqlite_ids_AB_rel, of 7] none
  have "delete_ci 7 db_AB_rel = ((ErrorBody (CINotFound 7), 404), db_AB_rel)" by simp
  ultimately show ?thesis using get none rel wf_db_AB_rel sqlite_ids_AB_rel by simp
qed

text \<open>
  Claim C1 as stated fails on an id that is no SQLite integer: no item has the id
  \<open>2 ^ 63\<close>, and \<open>delete_ci\<close> answers 500, not 404, because the driver's \<open>OverflowError\<close>
  is raised by the lookup before the handler's \<open>try\<close>.
\<close>

theorem delete_ci_out_of_range_counterexample:
  "9223372036854775808 \<notin> set (map ci_id (ci_rows db_AB_rel))
   \<and> delete_ci 9223372036854775808 db_AB_rel = ((InternalServerError, 500), db_AB_rel)
   \<and> fst (delete_ci 9223372036854775808 db_AB_rel)
        \<noteq> (ErrorBody (CINotFound 9223372036854775808), 404)"
  by (simp add: delete_ci_def session_get_ci_def find_ci_def sqlite_int_def unhandled_def
        db_AB_rel_eq row_A_def row_B_def)

section \<open>Uniqueness of names\<close>

lemma truthy_dict_get:
  "truthy (dict_get data field) \<Longrightarrow> dict_has data field \<and> data \<noteq> []"
  by (auto simp: truthy_def dict_get_def dict_has_def split: option.splits)

lemma create_ci_valid:
  assumes "truthy (dict_get data ''ci_name'')" and "truthy (dict_get data ''ci_type'')"
    and "truthy (dict_get data ''status'')"
  shows "create_ci now data db =
           (case insert_ci now \<lparr>v_ci_name = dict_get data ''ci_name'',
                                v_ci_type = dict_get data ''ci_type'',
                                v_status = dict_get data ''status'',
                                v_owner = dict_get data ''owner'',
                                v_ip_location = dict_get data ''ip_location'',
                                v_description = dict_get data ''description''\<rparr> db of
              Inl e \<Rightarrow> ((ErrorBody (NameAlreadyExists (dict_get data ''ci_name'')), 400), db)
            | Inr (row, db') \<Rightarrow> ((CIBody (ci_to_dict row), 201), db'))"
  using assms truthy_dict_get [OF assms(1)] truthy_dict_get [OF assms(2)]
    truthy_dict_get [OF assms(3)]
  by (simp add: create_ci_def Let_def)

lemma create_ci_duplicate:
  assumes "dict_get data ''ci_name'' = Some n" and "n \<in> set (map ci_name (ci_rows db))"
    and "truthy (dict_get data ''ci_name'')" and "truthy (dict_get data ''ci_type'')"
    and "truthy (dict_get data ''status'')"
  shows "create_ci now data db = ((ErrorBody (NameAlreadyExists (Some n)), 400), db)"
proof -
  from assms obtain t s where "dict_get data ''ci_type'' = Some t" "dict_get data ''status'' = Some s"
    by (auto simp: truthy_def split: option.splits)
  with assms(1,2) show ?thesis
    by (simp add: create_ci_valid [OF assms(3-5)] insert_ci_def)
qed

text \<open>
  Claim C2. Name uniqueness is an invariant: in every state reachable through the handlers
  no two distinct configuration items have the same name. In particular, in every state,
  a create whose payload passes the required-field check and carries a name that some
  item already holds answers 400 with the "already exists" error and adds no item.
\<close>

theorem ci_name_unique:
  assumes "reachable db"
  shows "distinct (map ci_name (ci_rows db))
       \<and> (\<forall>c1\<in>set (ci_rows db). \<forall>c2\<in>set (ci_rows db). ci_name c1 = ci_name c2 \<longrightarrow> c1 = c2)
       \<and> (\<forall>now data n.
            dict_get data ''ci_name'' = Some n \<and> n \<in> set (map ci_name (ci_rows db))
            \<and> truthy (dict_get data ''ci_name'') \<and> truthy (dict_get data ''ci_type'')
            \<and> truthy (dict_get data ''status'')
            \<longrightarrow> create_ci now data db = ((ErrorBody (NameAlreadyExists (Some n)), 400), db))"
proof -
  have d: "distinct (map ci_name (ci_rows db))"
    using reachable_wf [OF assms] by (simp add: wf_db_def)
  then have "\<forall>c1\<in>set (ci_rows db). \<forall>c2\<in>set (ci_rows db). ci_name c1 = ci_name c2 \<longrightarrow> c1 = c2"
    by (meson distinct_map inj_onD)
  with d create_ci_duplicate show ?thesis by blast
qed

theorem ci_name_unique_witness:
  "reachable db_AB_rel
   \<and> map ci_name (ci_rows db_AB_rel) = [''WebServer-Prod-01'', ''CustomerDB-Prod-01'']
   \<and> distinct (map ci_name (ci_rows db_AB_rel))
   \<and> create_ci 3 payload_A db_AB_rel
        = ((ErrorBody (NameAlreadyExists (Some ''WebServer-Prod-01'')), 400), db_AB_rel)"
proof -
  have names: "map ci_name (ci_rows db_AB_rel) = [''WebServer-Prod-01'', ''CustomerDB-Prod-01'']"
    by (simp add: db_AB_rel_eq row_A_def row_B_def)
  have p: "dict_get payload_A ''ci_name'' = Some ''WebServer-Prod-01''"
    "truthy (dict_get payload_A ''ci_name'')" "truthy (dict_get payload_A ''ci_type'')"
    "truthy (dict_get payload_A ''status'')"
    by (simp_all add: payload_A_def dict_get_def truthy_def)
  from ci_name_unique [OF reachable_db_AB_rel] names p
  have "distinct (map ci_name (ci_rows db_AB_rel))"
    and "create_ci 3 payload_A db_AB_rel
        = ((ErrorBody (NameAlreadyExists (Some ''WebServer-Prod-01'')), 400), db_AB_rel)"
    by simp_all
  with names reachable_db_AB_rel show ?thesis by simp
qed

section \<open>Creating relationships: validation before lookup\<close>

lemma json_get_present: "json_get data field = JInt i \<or> json_get data field = JStr s
    \<Longrightarrow> dict_has data field \<and> data \<noteq> []"
  by (auto simp: json_get_def dict_has_def split: option.splits)

lemma session_get_ci_exists:
  "i \<in> set (map ci_id (ci_rows db)) \<Longrightarrow> \<exists>c. session_get_ci i db = Inr (Some c)"
  using find_ci_None [of i db] by (cases "find_ci i db") (simp_all add: session_get_ci_def)

lemma session_get_ci_in_range: "sqlite_int i \<Longrightarrow> \<exists>r. session_get_ci i db = Inr r"
  by (cases "find_ci i db") (simp_all add: session_get_ci_def)

lemma create_relationship_typed:
  assumes "json_get data ''source_ci_id'' = JInt s" and "json_get data ''target_ci_id'' = JInt t"
    and "dict_has data ''relationship_type''"
  shows "create_relationship data db =
     (if s = t then ((ErrorBody SameSourceAndTarget, 400), db)
      else
        (case allowed_type (json_get data ''relationship_type'') of
           None \<Rightarrow> ((ErrorBody InvalidRelationshipType, 400), db)
         | Some ty \<Rightarrow>
             (case (session_get_ci s db, session_get_ci t db) of
                (Inr source_ci, Inr target_ci) \<Rightarrow>
                  if source_ci = None then ((ErrorBody (SourceCINotFound s), 404), db)
                  else if target_ci = None then ((ErrorBody (TargetCINotFound t), 404), db)
                  else
                    (case insert_relationship s t ty db of
                       Inl e \<Rightarrow>
                         if e = CheckViolation
                         then ((ErrorBody SelfReferentialConstraint, 400), db)
                         else ((ErrorBody DatabaseIntegrityError, 400), db)
                     | Inr (row, db') \<Rightarrow>
                         ((RelBody (relationship_to_dict db' row), 201), db'))
              | _ \<Rightarrow> (unhandled, db))))"
proof -
  have "dict_has data ''source_ci_id''" "dict_has data ''target_ci_id''" "data \<noteq> []"
    using json_get_present [of data "''source_ci_id''" s] json_get_present [of data "''target_ci_id''" t]
      assms(1,2) by simp_all
  with assms show ?thesis
    by (simp add: create_relationship_def Let_def)
qed

lemma allowed_type_None: "allowed_type j = None \<longleftrightarrow> j \<notin> JStr ` set ALLOWED_RELATIONSHIP_TYPES"
  by (cases j) (auto simp: allowed_type_def)

lemma allowed_type_Some: "ty \<in> set ALLOWED_RELATIONSHIP_TYPES \<Longrightarrow> allowed_type (JStr ty) = Some ty"
  by (simp add: allowed_type_def)

lemma create_relationship_invalid_400:
  assumes "json_get data ''source_ci_id'' = json_get data ''target_ci_id''
           \<or> json_get data ''relationship_type'' \<notin> JStr ` set ALLOWED_RELATIONSHIP_TYPES"
  shows "\<exists>e. create_relationship data db = ((ErrorBody e, 400), db)"
proof (cases "data = [] \<or> \<not> dict_has data ''source_ci_id'' \<or> \<not> dict_has data ''target_ci_id''
               \<or> \<not> dict_has data ''relationship_type''")
  case True
  then show ?thesis by (auto simp: create_relationship_def Let_def)
next
  case False
  show ?thesis
  proof (cases "\<exists>s t. json_get data ''source_ci_id'' = JInt s \<and> json_get data ''target_ci_id'' = JInt t")
    case True
    then obtain s t where st: "json_get data ''source_ci_id'' = JInt s"
      "json_get data ''target_ci_id'' = JInt t" by blast
    from assms st have "s = t \<or> allowed_type (json_get data ''relationship_type'') = None"
      by (auto simp: allowed_type_None)
    then show ?thesis
      using False by (auto simp: create_relationship_typed [OF st])
  next
    case nonint: False
    with False show ?thesis
      by (auto simp: create_relationship_def Let_def split: json.splits)
  qed
qed

text \<open>
  Claim C3. Creating a relationship whose source id equals its target id, or whose type is
  not one of "Depends on", "Hosts", "Connected to", "Runs on", "Provides", answers 400
  (a validation error) and creates nothing, whatever the ids are. With integer ids and a
  type in the payload the errors are "cannot be the same" and "invalid relationship_type".
\<close>

theorem create_relationship_rejects_invalid:
  "set ALLOWED_RELATIONSHIP_TYPES = {''Depends on'', ''Hosts'', ''Connected to'', ''Runs on'', ''Provides''}
   \<and> (json_get data ''source_ci_id'' = json_get data ''target_ci_id''
        \<or> json_get data ''relationship_type'' \<notin> JStr ` set ALLOWED_RELATIONSHIP_TYPES
      \<longrightarrow> (\<exists>e. create_relationship data db = ((ErrorBody e, 400), db)))
   \<and> (\<forall>s t. json_get data ''source_ci_id'' = JInt s \<and> json_get data ''target_ci_id'' = JInt t
             \<and> dict_has data ''relationship_type''
        \<longrightarrow> (s = t \<longrightarrow> create_relationship data db = ((ErrorBody SameSourceAndTarget, 400), db))
          \<and> (s \<noteq> t \<and> json_get data ''relationship_type'' \<notin> JStr ` set ALLOWED_RELATIONSHIP_TYPES
               \<longrightarrow> create_relationship data db = ((ErrorBody InvalidRelationshipType, 400), db)))"
proof (intro conjI allI impI)
  show "set ALLOWED_RELATIONSHIP_TYPES = {''Depends on'', ''Hosts'', ''Connected to'', ''Runs on'', ''Provides''}"
    by (simp add: ALLOWED_RELATIONSHIP_TYPES_def)
next
  assume "json_get data ''source_ci_id'' = json_get data ''target_ci_id''
        \<or> json_get data ''relationship_type'' \<notin> JStr ` set ALLOWED_RELATIONSHIP_TYPES"
  then show "\<exists>e. create_relationship data db = ((ErrorBody e, 400), db)"
    by (rule create_relationship_invalid_400)
next
  fix s t
  assume h: "json_get data ''source_ci_id'' = JInt s \<and> json_get data ''target_ci_id'' = JInt t
             \<and> dict_has data ''relationship_type''" and "s = t"
  then show "create_relationship data db = ((ErrorBody SameSourceAndTarget, 400), db)"
    by (simp add: create_relationship_typed [of data s t])
next
  fix s t
  assume h: "json_get data ''source_ci_id'' = JInt s \<and> json_get data ''target_ci_id'' = JInt t
             \<and> dict_has data ''relationship_type''"
    and "s \<noteq> t \<and> json_get data ''relationship_type'' \<notin> JStr ` set ALLOWED_RELATIONSHIP_TYPES"
  then have "allowed_type (json_get data ''relationship_type'') = None"
    by (simp add: allowed_type_None)
  with h \<open>s \<noteq> t \<and> _\<close> show "create_relationship data db = ((ErrorBody InvalidRelationshipType, 400), db)"
    by (simp add: create_relationship_typed [of data s t])
qed

theorem create_relationship_rejects_invalid_witness:
  "create_relationship [(''source_ci_id'', JInt 1), (''target_ci_id'', JInt 1),
                        (''relationship_type'', JStr ''Depends on'')] db_AB_rel
     = ((ErrorBody SameSourceAndTarget, 400), db_AB_rel)
   \<and> JStr ''Hacks into'' \<notin> JStr ` set ALLOWED_RELATIONSHIP_TYPES
   \<and> create_relationship [(''source_ci_id'', JInt 1), (''target_ci_id'', JInt 2),
                          (''relationship_type'', JStr ''Hacks into'')] db_AB_rel
     = ((ErrorBody InvalidRelationshipType, 400), db_AB_rel)"
proof -
  let ?d1 = "[(''source_ci_id'', JInt 1), (''target_ci_id'', JInt 1),
              (''relationship_type'', JStr ''Depends on'')]"
  let ?d2 = "[(''source_ci_id'', JInt 1), (''target_ci_id'', JInt 2),
              (''relationship_type'', JStr ''Hacks into'')]"
  have no: "JStr ''Hacks into'' \<notin> JStr ` set ALLOWED_RELATIONSHIP_TYPES"
    by (simp add: ALLOWED_RELATIONSHIP_TYPES_def)
  have g1: "json_get ?d1 ''source_ci_id'' = JInt 1" "json_get ?d1 ''target_ci_id'' = JInt 1"
    "dict_has ?d1 ''relationship_type''"
    by (simp_all add: json_get_def dict_has_def)
  have g2: "json_get ?d2 ''source_ci_id'' = JInt 1" "json_get ?d2 ''target_ci_id'' = JInt 2"
    "dict_has ?d2 ''relationship_type''" "json_get ?d2 ''relationship_type'' = JStr ''Hacks into''"
    by (simp_all add: json_get_def dict_has_def)
  have "create_relationship ?d1 db_AB_rel = ((ErrorBody SameSourceAndTarget, 400), db_AB_rel)"
    using create_relationship_rejects_invalid [of ?d1 db_AB_rel] g1 by blast
  moreover have "create_relationship ?d2 db_AB_rel = ((ErrorBody InvalidRelationshipType, 400), db_AB_rel)"
  proof -
    have "(1::int) \<noteq> 2 \<and> json_get ?d2 ''relationship_type'' \<notin> JStr ` set ALLOWED_RELATIONSHIP_TYPES"
      using no g2(4) by simp
    then show ?thesis
      using create_relationship_rejects_invalid [of ?d2 db_AB_rel] g2(1-3) by blast
  qed
  ultimately show ?thesis using no by blast
qed

text \<open>
  Claim C7, as the code has it. With distinct integer ids and an allowed type, creating a
  relationship creates nothing when the source item or the target item does not exist,
  and it answers 404 (not found) when both ids are SQLite integers, that is, within the
  signed 64-bit range; the source is reported first.
\<close>

theorem create_relationship_missing_endpoint:
  assumes "json_get data ''source_ci_id'' = JInt s" and "json_get data ''target_ci_id'' = JInt t"
    and "s \<noteq> t" and "json_get data ''relationship_type'' = JStr ty"
    and "ty \<in> set ALLOWED_RELATIONSHIP_TYPES"
    and "s \<notin> set (map ci_id (ci_rows db)) \<or> t \<notin> set (map ci_id (ci_rows db))"
  shows "snd (create_relationship data db) = db
       \<and> (sqlite_int s \<and> sqlite_int t \<longrightarrow>
            create_relationship data db =
              ((ErrorBody (if s \<notin> set (map ci_id (ci_rows db)) then SourceCINotFound s
                           else TargetCINotFound t), 404), db))"
proof -
  have has: "dict_has data ''relationship_type''"
    using json_get_present [of data "''relationship_type''" _ ty] assms(4) by simp
  have ty: "allowed_type (json_get data ''relationship_type'') = Some ty"
    using assms(4,5) by (simp add: allowed_type_Some)
  note eval = create_relationship_typed [OF assms(1,2) has]
  have missing: "session_get_ci s db = Inr None \<or> session_get_ci t db = Inr None
      \<or> (\<exists>e. session_get_ci s db = Inl e) \<or> (\<exists>e. session_get_ci t db = Inl e)"
    using assms(6) session_get_ci_None [of s db] session_get_ci_None [of t db]
      session_get_ci_raises [of s db OverflowError] session_get_ci_raises [of t db OverflowError]
    by blast
  have unchanged: "snd (create_relationship data db) = db"
    using missing assms(3) ty
    by (cases "session_get_ci s db"; cases "session_get_ci t db") (auto simp: eval)
  have found: "create_relationship data db =
              ((ErrorBody (if s \<notin> set (map ci_id (ci_rows db)) then SourceCINotFound s
                           else TargetCINotFound t), 404), db)"
    if range: "sqlite_int s \<and> sqlite_int t"
  proof (cases "s \<in> set (map ci_id (ci_rows db))")
    case True
    then obtain c where "session_get_ci s db = Inr (Some c)"
      using session_get_ci_exists by blast
    moreover from True assms(6) range have "session_get_ci t db = Inr None"
      by (simp only: session_get_ci_None) simp
    ultimately show ?thesis
      using True assms(3) ty by (simp add: eval)
  next
    case False
    with range have s: "session_get_ci s db = Inr None" by (simp only: session_get_ci_None) simp
    obtain r where "session_get_ci t db = Inr r"
      using range session_get_ci_in_range by blast
    with s show ?thesis
      using False assms(3) ty by (simp add: eval)
  qed
  from unchanged found show ?thesis by blast
qed

theorem create_relationship_missing_endpoint_witness:
  "sqlite_int 1 \<and> sqlite_int 5 \<and> sqlite_int 6 \<and> sqlite_int 2
   \<and> create_relationship [(''source_ci_id'', JInt 1), (''target_ci_id'', JInt 5),
                        (''relationship_type'', JStr ''Hosts'')] db_AB_rel
     = ((ErrorBody (TargetCINotFound 5), 404), db_AB_rel)
   \<and> create_relationship [(''source_ci_id'', JInt 6), (''target_ci_id'', JInt 2),
                          (''relationship_type'', JStr ''Hosts'')] db_AB_rel
     = ((ErrorBody (SourceCINotFound 6), 404), db_AB_rel)"
proof -
  let ?d1 = "[(''source_ci_id'', JInt 1), (''target_ci_id'', JInt 5),
              (''relationship_type'', JStr ''Hosts'')]"
  let ?d2 = "[(''source_ci_id'', JInt 6), (''target_ci_id'', JInt 2),
              (''relationship_type'', JStr ''Hosts'')]"
  have ids: "map ci_id (ci_rows db_AB_rel) = [1, 2]"
    by (simp add: db_AB_rel_eq row_A_def row_B_def)
  have al: "''Hosts'' \<in> set ALLOWED_RELATIONSHIP_TYPES"
    by (simp add: ALLOWED_RELATIONSHIP_TYPES_def)
  have range: "sqlite_int 1" "sqlite_int 5" "sqlite_int 6" "sqlite_int 2"
    by (simp_all add: sqlite_int_def)
  have "create_relationship ?d1 db_AB_rel = ((ErrorBody (TargetCINotFound 5), 404), db_AB_rel)"
    using create_relationship_missing_endpoint [of ?d1 1 5 "''Hosts''" db_AB_rel] al range
    by (simp add: ids json_get_def)
  moreover
  have "create_relationship ?d2 db_AB_rel = ((ErrorBody (SourceCINotFound 6), 404), db_AB_rel)"
    using create_relationship_missing_endpoint [of ?d2 6 2 "''Hosts''" db_AB_rel] al range
    by (simp add: ids json_get_def)
  ultimately show ?thesis using range by simp
qed

text \<open>
  Claim C7 as stated fails on an id that is no SQLite integer: with the missing source
  \<open>2 ^ 63\<close>, the existing target 2 and an allowed type, \<open>create_relationship\<close> answers 500,
  not 404, because the driver's \<open>OverflowError\<close> is raised by the lookup before the
  handler's \<open>try\<close>.
\<close>

theorem create_relationship_out_of_range_counterexample:
  "9223372036854775808 \<notin> set (map ci_id (ci_rows db_AB_rel))
   \<and> ''Hosts'' \<in> set ALLOWED_RELATIONSHIP_TYPES
   \<and> create_relationship [(''source_ci_id'', JInt 9223372036854775808),
                          (''target_ci_id'', JInt 2),
                          (''relationship_type'', JStr ''Hosts'')] db_AB_rel
       = ((InternalServerError, 500), db_AB_rel)"
  by (simp add: create_relationship_def Let_def dict_has_def json_get_def allowed_type_def
        ALLOWED_RELATIONSHIP_TYPES_def session_get_ci_def find_ci_def sqlite_int_def
        unhandled_def db_AB_rel_eq row_A_def row_B_def)

text \<open>
  Claim C9. The self-reference check comes before the lookup of the endpoints: with an
  allowed type, a payload whose source and target are the same integer \<open>x\<close> is answered
  400 "cannot be the same" in every database, whether an item with id \<open>x\<close> exists or not,
  and never 404.
\<close>

theorem self_reference_checked_first:
  assumes "json_get data ''source_ci_id'' = JInt x" and "json_get data ''target_ci_id'' = JInt x"
    and "json_get data ''relationship_type'' = JStr ty"
    and "ty \<in> set ALLOWED_RELATIONSHIP_TYPES"
  shows "create_relationship data db = ((ErrorBody SameSourceAndTarget, 400), db)
         \<and> snd (fst (create_relationship data db)) \<noteq> 404"
proof -
  have has: "dict_has data ''relationship_type''"
    using json_get_present [of data "''relationship_type''" _ ty] assms(3) by simp
  show ?thesis by (simp add: create_relationship_typed [OF assms(1,2) has])
qed

theorem self_reference_checked_first_witness:
  "session_get_ci 1 db_AB_rel = Inr (Some row_A)
   \<and> create_relationship [(''source_ci_id'', JInt 1), (''target_ci_id'', JInt 1),
                          (''relationship_type'', JStr ''Runs on'')] db_AB_rel
       = ((ErrorBody SameSourceAndTarget, 400), db_AB_rel)
   \<and> session_get_ci 9 db_AB_rel = Inr None
   \<and> create_relationship [(''source_ci_id'', JInt 9), (''target_ci_id'', JInt 9),
                          (''relationship_type'', JStr ''Runs on'')] db_AB_rel
       = ((ErrorBody SameSourceAndTarget, 400), db_AB_rel)"
proof -
  have al: "''Runs on'' \<in> set ALLOWED_RELATIONSHIP_TYPES"
    by (simp add: ALLOWED_RELATIONSHIP_TYPES_def)
  have g: "session_get_ci 1 db_AB_rel = Inr (Some row_A)" "session_get_ci 9 db_AB_rel = Inr None"
    by (simp_all add: db_AB_rel_eq session_get_ci_def find_ci_def sqlite_int_def row_A_def row_B_def)
  have "create_relationship [(''source_ci_id'', JInt 1), (''target_ci_id'', JInt 1),
                          (''relationship_type'', JStr ''Runs on'')] db_AB_rel
       = ((ErrorBody SameSourceAndTarget, 400), db_AB_rel)"
    using self_reference_checked_first [of _ 1 "''Runs on''" db_AB_rel, OF _ _ _ al]
    by (simp add: json_get_def)
  moreover have "create_relationship [(''source_ci_id'', JInt 9), (''target_ci_id'', JInt 9),
                          (''relationship_type'', JStr ''Runs on'')] db_AB_rel
       = ((ErrorBody SameSourceAndTarget, 400), db_AB_rel)"
    using self_reference_checked_first [of _ 9 "''Runs on''" db_AB_rel, OF _ _ _ al]
    by (simp add: json_get_def)
  ultimately show ?thesis using g by simp
qed

section \<open>Create, then get\<close>

lemma find_snoc_fresh:
  "\<forall>x\<in>set xs. \<not> P x \<Longrightarrow> P y \<Longrightarrow> find P (xs @ [y]) = Some y"
  by (induction xs) auto

lemma insert_ci_fresh:
  assumes "v_ci_name v = Some n" and "v_ci_type v = Some t" and "v_status v = Some s"
    and "n \<notin> set (map ci_name (ci_rows db))"
  shows "insert_ci now v db =
           Inr (\<lparr>ci_id = next_rowid (map ci_id (ci_rows db)), ci_name = n, ci_type = t,
                 status = s, owner = v_owner v, ip_location = v_ip_location v,
                 description = v_description v, last_updated = Some now\<rparr>,
                db\<lparr>ci_rows := ci_rows db @
                  [\<lparr>ci_id = next_rowid (map ci_id (ci_rows db)), ci_name = n, ci_type = t,
                    status = s, owner = v_owner v, ip_location = v_ip_location v,
                    description = v_description v, last_updated = Some now\<rparr>]\<rparr>)"
  using assms by (simp add: insert_ci_def Let_def)

text \<open>
  Claim C8. Create, then get. For every payload with a non-empty name that no item holds
  and a non-empty type and status (owner, location and description being optional),
  \<open>create_ci\<close> answers 201 with the new item, and \<open>get_ci\<close> with the assigned id then answers
  200 with the same item: its fields are those of the payload, its id is new, and its
  \<open>last_updated\<close> is the time of creation.
\<close>

theorem create_then_get:
  assumes "truthy (dict_get data ''ci_name'')" and "truthy (dict_get data ''ci_type'')"
    and "truthy (dict_get data ''status'')"
    and "dict_get data ''ci_name'' \<notin> Some ` set (map ci_name (ci_rows db))"
  shows "\<exists>d. fst (create_ci now data db) = (CIBody d, 201)
            \<and> get_ci (d_id d) (snd (create_ci now data db)) = (CIBody d, 200)
            \<and> Some (d_ci_name d) = dict_get data ''ci_name''
            \<and> Some (d_ci_type d) = dict_get data ''ci_type''
            \<and> Some (d_status d) = dict_get data ''status''
            \<and> d_owner d = dict_get data ''owner''
            \<and> d_ip_location d = dict_get data ''ip_location''
            \<and> d_description d = dict_get data ''description''
            \<and> d_last_updated d = Some now
            \<and> d_id d \<notin> set (map ci_id (ci_rows db))"
proof -
  from assms(1-3) obtain n t s where nts: "dict_get data ''ci_name'' = Some n"
    "dict_get data ''ci_type'' = Some t" "dict_get data ''status'' = Some s"
    by (auto simp: truthy_def split: option.splits)
  with assms(4) have fresh_name: "n \<notin> set (map ci_name (ci_rows db))" by auto
  define i where "i = next_rowid (map ci_id (ci_rows db))"
  define row where "row = \<lparr>ci_id = i, ci_name = n, ci_type = t, status = s,
      owner = dict_get data ''owner'', ip_location = dict_get data ''ip_location'',
      description = dict_get data ''description'', last_updated = Some now\<rparr>"
  have fresh_id: "i \<notin> set (map ci_id (ci_rows db))"
    unfolding i_def by (rule next_rowid_fresh)
  have created: "create_ci now data db = ((CIBody (ci_to_dict row), 201), db\<lparr>ci_rows := ci_rows db @ [row]\<rparr>)"
    using nts fresh_name
    by (simp add: create_ci_valid [OF assms(1-3)] insert_ci_fresh [of _ n t s] row_def i_def)
  have "find (\<lambda>c. ci_id c = i) (ci_rows db @ [row]) = Some row"
    using fresh_id by (intro find_snoc_fresh) (auto simp: row_def)
  then have "session_get_ci i (db\<lparr>ci_rows := ci_rows db @ [row]\<rparr>) = Inr (Some row)"
    by (simp add: session_get_ci_def find_ci_def)
  then have "get_ci i (db\<lparr>ci_rows := ci_rows db @ [row]\<rparr>) = (CIBody (ci_to_dict row), 200)"
    by (simp add: get_ci_def)
  with created fresh_id nts show ?thesis
    by (intro exI [of _ "ci_to_dict row"]) (simp add: ci_to_dict_def row_def)
qed

theorem create_then_get_witness:
  "fst (create_ci 2 payload_B db_A)
     = (CIBody \<lparr>d_id = 2, d_ci_name = ''CustomerDB-Prod-01'', d_ci_type = ''Database'',
                d_status = ''Active'', d_owner = Some ''DBTeam'', d_ip_location = None,
                d_description = None, d_last_updated = Some 2\<rparr>, 201)
   \<and> get_ci 2 (snd (create_ci 2 payload_B db_A))
     = (CIBody \<lparr>d_id = 2, d_ci_name = ''CustomerDB-Prod-01'', d_ci_type = ''Database'',
                d_status = ''Active'', d_owner = Some ''DBTeam'', d_ip_location = None,
                d_description = None, d_last_updated = Some 2\<rparr>, 200)"
proof -
  have p: "truthy (dict_get payload_B ''ci_name'')" "truthy (dict_get payload_B ''ci_type'')"
    "truthy (dict_get payload_B ''status'')"
    "dict_get payload_B ''ci_name'' \<notin> Some ` set (map ci_name (ci_rows db_A))"
    by (simp_all add: payload_B_def dict_get_def truthy_def db_A_eq row_A_def)
  from create_then_get [OF p, of 2] obtain d where
    d: "fst (create_ci 2 payload_B db_A) = (CIBody d, 201)"
    "get_ci (d_id d) (snd (create_ci 2 payload_B db_A)) = (CIBody d, 200)"
    by blast
  have v: "fst (create_ci 2 payload_B db_A) = (CIBody (ci_to_dict row_B), 201)"
    using db_AB_eq
    by (simp add: db_A_eq create_ci_def payload_B_def dict_has_def dict_get_def
        truthy_def insert_ci_def row_A_def row_B_def Let_def)
  with d(1) have "d = ci_to_dict row_B" by simp
  with d show ?thesis by (simp add: ci_to_dict_def row_B_def)
qed

section \<open>Updates that would duplicate a name\<close>

lemma find_not_None: "x \<in> set xs \<Longrightarrow> P x \<Longrightarrow> find P xs \<noteq> None"
  by (auto simp: find_None_iff)

text \<open>
  Claim C6. An update that would duplicate a name changes nothing. Let item \<open>x\<close> exist and
  let the new name be the name of another existing item. Then \<open>update_ci\<close> answers 400 with
  the "already exists" error and the database, hence every field of \<open>x\<close> including
  \<open>last_updated\<close>, is as before. The form handler \<open>edit_ci_ui\<close> does the same with its
  "Another CI ... already exists" message, once the form has passed its required-field check.
\<close>

theorem update_duplicate_name_atomic:
  assumes "wf_db db" and "session_get_ci x db = Inr (Some cx)"
    and "cy \<in> set (ci_rows db)" and "ci_id cy \<noteq> x" and "ci_name cy = n"
  shows "(dict_has data ''ci_name'' \<and> dict_get data ''ci_name'' = Some n \<longrightarrow>
            update_ci now x data db = ((ErrorBody (NameAlreadyExists (Some n)), 400), db)
            \<and> session_get_ci x (snd (update_ci now x data db)) = Inr (Some cx)
            \<and> get_ci x (snd (update_ci now x data db)) = get_ci x db)
       \<and> (map_of form ''ci_name'' = Some n \<and> truthy (map_of form ''ci_name'')
            \<and> truthy (map_of form ''ci_type'') \<and> truthy (map_of form ''status'') \<longrightarrow>
            edit_ci_ui now x form db = (RenderForm (AnotherCINameExists (Some n)), db)
            \<and> session_get_ci x (snd (edit_ci_ui now x form db)) = Inr (Some cx))"
proof -
  from assms(2) have cx: "cx \<in> set (ci_rows db)" "ci_id cx = x"
    by (simp_all add: session_get_ci_Some)
  with assms(4) have "cx \<noteq> cy" by auto
  moreover from assms(1) have "distinct (map ci_name (ci_rows db))" by (simp add: wf_db_def)
  ultimately have neq: "ci_name cx \<noteq> n"
    using cx(1) assms(3,5) by (metis distinct_map inj_onD)
  have found: "find (\<lambda>c. Some (ci_name c) = Some n) (ci_rows db) \<noteq> None"
    using assms(3,5) by (intro find_not_None [of cy]) simp_all
  have found': "find (\<lambda>c. ci_id c \<noteq> x \<and> Some (ci_name c) = Some n) (ci_rows db) \<noteq> None"
    using assms(3,4,5) by (intro find_not_None [of cy]) simp_all
  have api: "update_ci now x data db = ((ErrorBody (NameAlreadyExists (Some n)), 400), db)"
    if "dict_has data ''ci_name''" and "dict_get data ''ci_name'' = Some n"
  proof -
    from that(1) have "data \<noteq> []" by (auto simp: dict_has_def)
    with that assms(2) neq found show ?thesis by (simp add: update_ci_def)
  qed
  have ui: "edit_ci_ui now x form db = (RenderForm (AnotherCINameExists (Some n)), db)"
    if "map_of form ''ci_name'' = Some n" and "truthy (map_of form ''ci_name'')"
      and "truthy (map_of form ''ci_type'')" and "truthy (map_of form ''status'')"
    using that assms(2) neq found' by (simp add: edit_ci_ui_def Let_def)
  from api ui assms(2) show ?thesis by auto
qed

theorem update_duplicate_name_atomic_witness:
  "wf_db db_AB_rel \<and> session_get_ci 2 db_AB_rel = Inr (Some row_B)
   \<and> row_A \<in> set (ci_rows db_AB_rel) \<and> ci_id row_A \<noteq> 2 \<and> ci_name row_A = ''WebServer-Prod-01''
   \<and> update_ci 9 2 [(''ci_name'', Some ''WebServer-Prod-01''), (''status'', Some ''Retired'')] db_AB_rel
       = ((ErrorBody (NameAlreadyExists (Some ''WebServer-Prod-01'')), 400), db_AB_rel)
   \<and> edit_ci_ui 9 2 [(''ci_name'', ''WebServer-Prod-01''), (''ci_type'', ''Database''),
                     (''status'', ''Retired'')] db_AB_rel
       = (RenderForm (AnotherCINameExists (Some ''WebServer-Prod-01'')), db_AB_rel)"
proof -
  have h: "session_get_ci 2 db_AB_rel = Inr (Some row_B)" "row_A \<in> set (ci_rows db_AB_rel)"
    "ci_id row_A \<noteq> 2" "ci_name row_A = ''WebServer-Prod-01''"
    by (simp_all add: db_AB_rel_eq session_get_ci_def find_ci_def row_A_def row_B_def)
  let ?data = "[(''ci_name'', Some ''WebServer-Prod-01''), (''status'', Some ''Retired'')]"
  let ?form = "[(''ci_name'', ''WebServer-Prod-01''), (''ci_type'', ''Database''),
                (''status'', ''Retired'')]"
  have d: "dict_has ?data ''ci_name'' \<and> dict_get ?data ''ci_name'' = Some ''WebServer-Prod-01''"
    by (simp add: dict_has_def dict_get_def)
  have f: "map_of ?form ''ci_name'' = Some ''WebServer-Prod-01'' \<and> truthy (map_of ?form ''ci_name'')
            \<and> truthy (map_of ?form ''ci_type'') \<and> truthy (map_of ?form ''status'')"
    by (simp add: truthy_def)
  from update_duplicate_name_atomic [OF wf_db_AB_rel h, of ?data 9 ?form] d f
  have "update_ci 9 2 ?data db_AB_rel
       = ((ErrorBody (NameAlreadyExists (Some ''WebServer-Prod-01'')), 400), db_AB_rel)"
    and "edit_ci_ui 9 2 ?form db_AB_rel
       = (RenderForm (AnotherCINameExists (Some ''WebServer-Prod-01'')), db_AB_rel)"
    by blast+
  with h wf_db_AB_rel show ?thesis by blast
qed

section \<open>The direction of a relationship query\<close>

lemma lower_char_idem: "lower_char (lower_char c) = lower_char c"
  by (simp add: lower_char_def)

lemma lower_idem: "lower (lower s) = lower s"
  by (simp add: lower_def lower_char_idem)

lemma lower_words:
  "lower ''source'' = ''source''" "lower ''target'' = ''target''" "lower ''all'' = ''all''"
  "lower ''SOURCE'' = ''source''" "lower ''All'' = ''all''" "lower ''Target'' = ''target''"
  by (simp_all add: lower_def lower_char_def)

lemma rels_for_ci_direction:
  assumes "session_get_ci cid db = Inr (Some ci)" and "map_of request_args ''direction'' = Some d"
  shows "get_relationships_for_ci cid request_args db =
     (if lower d = ''source''
      then (RelListBody (map (relationship_to_dict db)
              (filter (\<lambda>r. source_ci_id r = cid) (rel_rows db))), 200)
      else if lower d = ''target''
      then (RelListBody (map (relationship_to_dict db)
              (filter (\<lambda>r. target_ci_id r = cid) (rel_rows db))), 200)
      else if lower d = ''all''
      then (RelListBody (map (relationship_to_dict db)
              (filter (\<lambda>r. source_ci_id r = cid \<or> target_ci_id r = cid) (rel_rows db))), 200)
      else (ErrorBody InvalidDirection, 400))"
  using assms by (simp add: get_relationships_for_ci_def Let_def)

lemma rels_for_ci_absent:
  assumes "session_get_ci cid db = Inr (Some ci)" and "map_of request_args ''direction'' = None"
  shows "get_relationships_for_ci cid request_args db =
     (RelListBody (map (relationship_to_dict db)
        (filter (\<lambda>r. source_ci_id r = cid \<or> target_ci_id r = cid) (rel_rows db))), 200)"
  using assms by (simp add: get_relationships_for_ci_def Let_def lower_words)


text \<open>
  Claim C10. For an existing item, an absent \<open>direction\<close> argument means \<open>all\<close>, and a
  supplied one is lowercased before it is compared: the answer only depends on the
  lowercased value, so \<open>SOURCE\<close>, \<open>Target\<close> and \<open>All\<close> are accepted as \<open>source\<close>, \<open>target\<close> and
  \<open>all\<close> rather than rejected.
\<close>

theorem direction_default_and_case_folding:
  assumes "session_get_ci cid db = Inr (Some ci)"
  shows "(map_of request_args ''direction'' = None \<longrightarrow>
            get_relationships_for_ci cid request_args db
              = get_relationships_for_ci cid [(''direction'', ''all'')] db)
       \<and> (\<forall>d. map_of request_args ''direction'' = Some d \<longrightarrow>
            get_relationships_for_ci cid request_args db
              = get_relationships_for_ci cid [(''direction'', lower d)] db)
       \<and> get_relationships_for_ci cid [(''direction'', ''SOURCE'')] db
           = (RelListBody (map (relationship_to_dict db)
                (filter (\<lambda>r. source_ci_id r = cid) (rel_rows db))), 200)
       \<and> get_relationships_for_ci cid [(''direction'', ''Target'')] db
           = (RelListBody (map (relationship_to_dict db)
                (filter (\<lambda>r. target_ci_id r = cid) (rel_rows db))), 200)
       \<and> get_relationships_for_ci cid [(''direction'', ''All'')] db
           = (RelListBody (map (relationship_to_dict db)
                (filter (\<lambda>r. source_ci_id r = cid \<or> target_ci_id r = cid) (rel_rows db))), 200)"
proof (intro conjI allI impI)
  assume "map_of request_args ''direction'' = None"
  then show "get_relationships_for_ci cid request_args db
              = get_relationships_for_ci cid [(''direction'', ''all'')] db"
    using assms
    by (simp add: rels_for_ci_absent rels_for_ci_direction [of cid db ci _ "''all''"] lower_words)
next
  fix d
  assume "map_of request_args ''direction'' = Some d"
  then show "get_relationships_for_ci cid request_args db
              = get_relationships_for_ci cid [(''direction'', lower d)] db"
    using assms
    by (simp add: rels_for_ci_direction [of cid db ci _ d]
          rels_for_ci_direction [of cid db ci _ "lower d"] lower_idem)
next
  show "get_relationships_for_ci cid [(''direction'', ''SOURCE'')] db
           = (RelListBody (map (relationship_to_dict db)
                (filter (\<lambda>r. source_ci_id r = cid) (rel_rows db))), 200)"
    using assms by (simp add: rels_for_ci_direction [of cid db ci _ "''SOURCE''"] lower_words)
next
  show "get_relationships_for_ci cid [(''direction'', ''Target'')] db
           = (RelListBody (map (relationship_to_dict db)
                (filter (\<lambda>r. target_ci_id r = cid) (rel_rows db))), 200)"
    using assms by (simp add: rels_for_ci_direction [of cid db ci _ "''Target''"] lower_words)
next
  show "get_relationships_for_ci cid [(''direction'', ''All'')] db
           = (RelListBody (map (relationship_to_dict db)
                (filter (\<lambda>r. source_ci_id r = cid \<or> target_ci_id r = cid) (rel_rows db))), 200)"
    using assms by (simp add: rels_for_ci_direction [of cid db ci _ "''All''"] lower_words)
qed

lemma dict_A_to_B:
  "relationship_to_dict db_AB_rel row_A_to_B =
     \<lparr>d_rel_id = 1, d_source_ci_id = 1, d_source_ci_name = ''WebServer-Prod-01'',
      d_target_ci_id = 2, d_target_ci_name = ''CustomerDB-Prod-01'',
      d_relationship_type = ''Depends on''\<rparr>"
  by (simp add: relationship_to_dict_def db_AB_rel_eq session_get_ci_def find_ci_def row_A_def row_B_def
        row_A_to_B_def)

theorem direction_default_and_case_folding_witness:
  "session_get_ci 2 db_AB_rel = Inr (Some row_B)
   \<and> get_relationships_for_ci 2 [] db_AB_rel
       = get_relationships_for_ci 2 [(''direction'', ''all'')] db_AB_rel
   \<and> get_relationships_for_ci 2 [(''direction'', ''SOURCE'')] db_AB_rel = (RelListBody [], 200)
   \<and> get_relationships_for_ci 2 [(''direction'', ''All'')] db_AB_rel
       = (RelListBody [\<lparr>d_rel_id = 1, d_source_ci_id = 1, d_source_ci_name = ''WebServer-Prod-01'',
                        d_target_ci_id = 2, d_target_ci_name = ''CustomerDB-Prod-01'',
                        d_relationship_type = ''Depends on''\<rparr>], 200)"
proof -
  have g: "session_get_ci 2 db_AB_rel = Inr (Some row_B)"
    by (simp add: db_AB_rel_eq session_get_ci_def find_ci_def row_A_def row_B_def)
  have rows: "rel_rows db_AB_rel = [row_A_to_B]" by (simp add: db_AB_rel_eq)
  have ends: "source_ci_id row_A_to_B = 1" "target_ci_id row_A_to_B = 2"
    by (simp_all add: row_A_to_B_def)
  from direction_default_and_case_folding [OF g, of "[]"]
  show ?thesis using g by (simp add: rows ends dict_A_to_B)
qed

section \<open>Relationships of an item, by endpoint\<close>

lemma dict_rel_id [simp]: "d_rel_id (relationship_to_dict db r) = rel_id r"
  by (simp add: relationship_to_dict_def)

lemma distinct_dict_ids:
  assumes "distinct (map rel_id rows)"
  shows "distinct (map d_rel_id (map (relationship_to_dict db) (filter P rows)))"
proof -
  have "map d_rel_id (map (relationship_to_dict db) (filter P rows)) = map rel_id (filter P rows)"
    by (induction rows) simp_all
  with assms show ?thesis by (simp only: distinct_map_filter)
qed

lemma insert_relationship_ok:
  "s \<noteq> t \<Longrightarrow> insert_relationship s t ty db =
     Inr (\<lparr>rel_id = next_rowid (map rel_id (rel_rows db)), source_ci_id = s,
            target_ci_id = t, relationship_type = ty\<rparr>,
          db\<lparr>rel_rows := rel_rows db @
            [\<lparr>rel_id = next_rowid (map rel_id (rel_rows db)), source_ci_id = s,
              target_ci_id = t, relationship_type = ty\<rparr>]\<rparr>)"
  by (simp add: insert_relationship_def Let_def)

lemma session_get_ci_rel_rows [simp]:
  "session_get_ci i (db\<lparr>rel_rows := rs\<rparr>) = session_get_ci i db"
  by (simp add: session_get_ci_def find_ci_def)

lemma relationship_to_dict_rel_rows [simp]:
  "relationship_to_dict (db\<lparr>rel_rows := rs\<rparr>) r = relationship_to_dict db r"
  by (simp add: relationship_to_dict_def find_ci_def)

lemma first_incoming_relationship:
  assumes "json_get data ''source_ci_id'' = JInt A" and "json_get data ''target_ci_id'' = JInt B"
    and "json_get data ''relationship_type'' = JStr ty" and "ty \<in> set ALLOWED_RELATIONSHIP_TYPES"
    and "A \<noteq> B" and "session_get_ci A db = Inr (Some ca)" and "session_get_ci B db = Inr (Some cb)"
    and "\<forall>r\<in>set (rel_rows db). target_ci_id r \<noteq> B"
  shows "\<exists>d. fst (create_relationship data db) = (RelBody d, 201)
           \<and> get_relationships_for_ci B [(''direction'', ''target'')] (snd (create_relationship data db))
               = (RelListBody [d], 200)
           \<and> d_source_ci_id d = A \<and> d_target_ci_id d = B \<and> d_relationship_type d = ty"
proof -
  define row where "row = \<lparr>rel_id = next_rowid (map rel_id (rel_rows db)), source_ci_id = A,
            target_ci_id = B, relationship_type = ty\<rparr>"
  define db' where "db' = db\<lparr>rel_rows := rel_rows db @ [row]\<rparr>"
  have has: "dict_has data ''relationship_type''"
    using json_get_present [of data "''relationship_type''" _ ty] assms(3) by simp
  have created: "create_relationship data db = ((RelBody (relationship_to_dict db' row), 201), db')"
    using assms(3-7)
    by (simp add: create_relationship_typed [OF assms(1,2) has] allowed_type_Some
          insert_relationship_ok row_def db'_def)
  have "filter (\<lambda>r. target_ci_id r = B) (rel_rows db) = []"
    using assms(8) by (simp add: filter_empty_conv)
  then have rows: "filter (\<lambda>r. target_ci_id r = B) (rel_rows db') = [row]"
    by (simp add: db'_def row_def)
  have "session_get_ci B db' = Inr (Some cb)" using assms(7) by (simp add: db'_def)
  then have "get_relationships_for_ci B [(''direction'', ''target'')] db'
               = (RelListBody [relationship_to_dict db' row], 200)"
    by (simp add: rels_for_ci_direction [of B db' cb _ "''target''"] lower_words rows)
  with created show ?thesis
    by (intro exI [of _ "relationship_to_dict db' row"])
       (simp add: relationship_to_dict_def row_def)
qed

text \<open>
  Claim C5, as the code has it. For every existing item \<open>C\<close> and every supplied direction
  \<open>dir\<close>, compared after lowercasing: \<open>source\<close> yields exactly the relationships whose source
  is \<open>C\<close>, \<open>target\<close> exactly those whose target is \<open>C\<close>, and \<open>all\<close> their union, each
  relationship once; a direction whose lowercased value is none of the three is answered
  400 "invalid direction" instead of a default. When \<open>B\<close> has no incoming relationship and
  the relationship \<open>A\<close> to \<open>B\<close> is created, the \<open>target\<close> query on \<open>B\<close> yields exactly that one
  relationship, with source \<open>A\<close>.
\<close>

theorem relationships_by_endpoint:
  assumes "wf_db db" and "session_get_ci C db = Inr (Some ci)"
    and "map_of request_args ''direction'' = Some dir"
  shows "(lower dir = ''source'' \<longrightarrow>
            get_relationships_for_ci C request_args db
              = (RelListBody (map (relationship_to_dict db)
                   (filter (\<lambda>r. source_ci_id r = C) (rel_rows db))), 200))
       \<and> (lower dir = ''target'' \<longrightarrow>
            get_relationships_for_ci C request_args db
              = (RelListBody (map (relationship_to_dict db)
                   (filter (\<lambda>r. target_ci_id r = C) (rel_rows db))), 200))
       \<and> (lower dir = ''all'' \<longrightarrow>
            get_relationships_for_ci C request_args db
              = (RelListBody (map (relationship_to_dict db)
                   (filter (\<lambda>r. source_ci_id r = C \<or> target_ci_id r = C) (rel_rows db))), 200)
            \<and> set (filter (\<lambda>r. source_ci_id r = C \<or> target_ci_id r = C) (rel_rows db))
                = set (filter (\<lambda>r. source_ci_id r = C) (rel_rows db))
                  \<union> set (filter (\<lambda>r. target_ci_id r = C) (rel_rows db))
            \<and> distinct (map d_rel_id (map (relationship_to_dict db)
                   (filter (\<lambda>r. source_ci_id r = C \<or> target_ci_id r = C) (rel_rows db)))))
       \<and> (lower dir \<notin> {''source'', ''target'', ''all''} \<longrightarrow>
            get_relationships_for_ci C request_args db = (ErrorBody InvalidDirection, 400))
       \<and> (\<forall>data A ty ca.
            json_get data ''source_ci_id'' = JInt A \<and> json_get data ''target_ci_id'' = JInt C
            \<and> json_get data ''relationship_type'' = JStr ty \<and> ty \<in> set ALLOWED_RELATIONSHIP_TYPES
            \<and> A \<noteq> C \<and> session_get_ci A db = Inr (Some ca)
            \<and> (\<forall>r\<in>set (rel_rows db). target_ci_id r \<noteq> C)
            \<longrightarrow> (\<exists>d. fst (create_relationship data db) = (RelBody d, 201)
                   \<and> get_relationships_for_ci C [(''direction'', ''target'')]
                         (snd (create_relationship data db)) = (RelListBody [d], 200)
                   \<and> d_source_ci_id d = A \<and> d_target_ci_id d = C
                   \<and> d_relationship_type d = ty))"
proof -
  note eval = rels_for_ci_direction [OF assms(2,3)]
  have src: "lower dir = ''source'' \<longrightarrow>
            get_relationships_for_ci C request_args db
              = (RelListBody (map (relationship_to_dict db)
                   (filter (\<lambda>r. source_ci_id r = C) (rel_rows db))), 200)"
    by (simp add: eval)
  have tgt: "lower dir = ''target'' \<longrightarrow>
            get_relationships_for_ci C request_args db
              = (RelListBody (map (relationship_to_dict db)
                   (filter (\<lambda>r. target_ci_id r = C) (rel_rows db))), 200)"
    by (simp add: eval)
  have all1: "lower dir = ''all'' \<longrightarrow>
            get_relationships_for_ci C request_args db
              = (RelListBody (map (relationship_to_dict db)
                   (filter (\<lambda>r. source_ci_id r = C \<or> target_ci_id r = C) (rel_rows db))), 200)"
    by (simp add: eval)
  have all2: "set (filter (\<lambda>r. source_ci_id r = C \<or> target_ci_id r = C) (rel_rows db))
                = set (filter (\<lambda>r. source_ci_id r = C) (rel_rows db))
                  \<union> set (filter (\<lambda>r. target_ci_id r = C) (rel_rows db))"
    by auto
  have all3: "distinct (map d_rel_id (map (relationship_to_dict db)
                   (filter (\<lambda>r. source_ci_id r = C \<or> target_ci_id r = C) (rel_rows db))))"
    using assms(1) by (intro distinct_dict_ids) (simp add: wf_db_def)
  have bad: "lower dir \<notin> {''source'', ''target'', ''all''} \<longrightarrow>
            get_relationships_for_ci C request_args db = (ErrorBody InvalidDirection, 400)"
    by (simp add: eval)
  have new: "\<forall>data A ty ca.
            json_get data ''source_ci_id'' = JInt A \<and> json_get data ''target_ci_id'' = JInt C
            \<and> json_get data ''relationship_type'' = JStr ty \<and> ty \<in> set ALLOWED_RELATIONSHIP_TYPES
            \<and> A \<noteq> C \<and> session_get_ci A db = Inr (Some ca)
            \<and> (\<forall>r\<in>set (rel_rows db). target_ci_id r \<noteq> C)
            \<longrightarrow> (\<exists>d. fst (create_relationship data db) = (RelBody d, 201)
                   \<and> get_relationships_for_ci C [(''direction'', ''target'')]
                         (snd (create_relationship data db)) = (RelListBody [d], 200)
                   \<and> d_source_ci_id d = A \<and> d_target_ci_id d = C
                   \<and> d_relationship_type d = ty)"
    using first_incoming_relationship [where B = C and db = db and cb = ci] assms(2)
    by blast
  from src tgt all1 all2 all3 bad new show ?thesis by blast
qed


lemma wf_db_AB: "wf_db db_AB"
  by (simp add: wf_db_def db_AB_eq row_A_def row_B_def)

theorem relationships_by_endpoint_witness:
  "wf_db db_AB_rel \<and> session_get_ci 2 db_AB_rel = Inr (Some row_B)
   \<and> get_relationships_for_ci 2 [(''direction'', ''target'')] db_AB_rel
       = (RelListBody [\<lparr>d_rel_id = 1, d_source_ci_id = 1, d_source_ci_name = ''WebServer-Prod-01'',
                        d_target_ci_id = 2, d_target_ci_name = ''CustomerDB-Prod-01'',
                        d_relationship_type = ''Depends on''\<rparr>], 200)
   \<and> get_relationships_for_ci 2 [(''direction'', ''source'')] db_AB_rel = (RelListBody [], 200)
   \<and> get_relationships_for_ci 2 [(''direction'', ''sideways'')] db_AB_rel
       = (ErrorBody InvalidDirection, 400)
   \<and> rel_rows db_AB = []
   \<and> (\<exists>d. fst (create_relationship payload_A_to_B db_AB) = (RelBody d, 201)
          \<and> get_relationships_for_ci 2 [(''direction'', ''target'')]
               (snd (create_relationship payload_A_to_B db_AB)) = (RelListBody [d], 200)
          \<and> d_source_ci_id d = 1)"
proof -
  have g: "session_get_ci 2 db_AB_rel = Inr (Some row_B)"
    by (simp add: db_AB_rel_eq session_get_ci_def find_ci_def row_A_def row_B_def)
  have rows: "rel_rows db_AB_rel = [row_A_to_B]" by (simp add: db_AB_rel_eq)
  have ends: "source_ci_id row_A_to_B = 1" "target_ci_id row_A_to_B = 2"
    by (simp_all add: row_A_to_B_def)
  have low: "lower ''sideways'' \<notin> {''source'', ''target'', ''all''}"
    by (simp add: lower_def lower_char_def)
  have t: "get_relationships_for_ci 2 [(''direction'', ''target'')] db_AB_rel
       = (RelListBody [\<lparr>d_rel_id = 1, d_source_ci_id = 1, d_source_ci_name = ''WebServer-Prod-01'',
                        d_target_ci_id = 2, d_target_ci_name = ''CustomerDB-Prod-01'',
                        d_relationship_type = ''Depends on''\<rparr>], 200)"
    using relationships_by_endpoint [OF wf_db_AB_rel g, of "[(''direction'', ''target'')]" "''target''"]
    by (simp add: lower_words rows ends dict_A_to_B)
  have s: "get_relationships_for_ci 2 [(''direction'', ''source'')] db_AB_rel = (RelListBody [], 200)"
    using relationships_by_endpoint [OF wf_db_AB_rel g, of "[(''direction'', ''source'')]" "''source''"]
    by (simp add: lower_words rows ends)
  have b: "get_relationships_for_ci 2 [(''direction'', ''sideways'')] db_AB_rel
       = (ErrorBody InvalidDirection, 400)"
    using relationships_by_endpoint [OF wf_db_AB_rel g, of "[(''direction'', ''sideways'')]" "''sideways''"]
      low by simp
  have g2: "session_get_ci 2 db_AB = Inr (Some row_B)" "session_get_ci 1 db_AB = Inr (Some row_A)"
    by (simp_all add: db_AB_eq session_get_ci_def find_ci_def row_A_def row_B_def)
  have none: "\<forall>r\<in>set (rel_rows db_AB). target_ci_id r \<noteq> 2" by (simp add: db_AB_eq)
  have p: "json_get payload_A_to_B ''source_ci_id'' = JInt 1"
    "json_get payload_A_to_B ''target_ci_id'' = JInt 2"
    "json_get payload_A_to_B ''relationship_type'' = JStr ''Depends on''"
    "''Depends on'' \<in> set ALLOWED_RELATIONSHIP_TYPES"
    by (simp_all add: payload_A_to_B_def json_get_def ALLOWED_RELATIONSHIP_TYPES_def)
  have m: "map_of [(''direction'', ''target'')] ''direction'' = Some ''target''" by simp
  note new = relationships_by_endpoint [OF wf_db_AB g2(1) m, THEN conjunct2, THEN conjunct2,
      THEN conjunct2, THEN conjunct2, rule_format, of payload_A_to_B 1 "''Depends on''" row_A]
  have "\<exists>d. fst (create_relationship payload_A_to_B db_AB) = (RelBody d, 201)
          \<and> get_relationships_for_ci 2 [(''direction'', ''target'')]
               (snd (create_relationship payload_A_to_B db_AB)) = (RelListBody [d], 200)
          \<and> d_source_ci_id d = 1 \<and> d_target_ci_id d = 2
          \<and> d_relationship_type d = ''Depends on''"
    by (rule new) (simp add: p g2 none)
  then have "\<exists>d. fst (create_relationship payload_A_to_B db_AB) = (RelBody d, 201)
          \<and> get_relationships_for_ci 2 [(''direction'', ''target'')]
               (snd (create_relationship payload_A_to_B db_AB)) = (RelListBody [d], 200)
          \<and> d_source_ci_id d = 1"
    by blast
  moreover have "rel_rows db_AB = []" by (simp add: db_AB_eq)
  ultimately show ?thesis using t s b g wf_db_AB_rel by blast
qed

text \<open>
  Claim C5 as stated fails on the direction \<open>SOURCE\<close>: it is not one of \<open>source\<close>,
  \<open>target\<close>, \<open>all\<close>, and the query on item 1 is answered 200 with the outgoing
  relationship, not 400.
\<close>

theorem direction_outside_set_counterexample:
  "''SOURCE'' \<notin> {''source'', ''target'', ''all''}
   \<and> get_relationships_for_ci 1 [(''direction'', ''SOURCE'')] db_AB_rel
       = (RelListBody [\<lparr>d_rel_id = 1, d_source_ci_id = 1, d_source_ci_name = ''WebServer-Prod-01'',
                        d_target_ci_id = 2, d_target_ci_name = ''CustomerDB-Prod-01'',
                        d_relationship_type = ''Depends on''\<rparr>], 200)
   \<and> get_relationships_for_ci 1 [(''direction'', ''SOURCE'')] db_AB_rel
       \<noteq> (ErrorBody InvalidDirection, 400)"
proof -
  have g: "session_get_ci 1 db_AB_rel = Inr (Some row_A)"
    by (simp add: db_AB_rel_eq session_get_ci_def find_ci_def row_A_def)
  have rows: "rel_rows db_AB_rel = [row_A_to_B]" by (simp add: db_AB_rel_eq)
  have ends: "source_ci_id row_A_to_B = 1" by (simp add: row_A_to_B_def)
  show ?thesis
    by (simp add: rels_for_ci_direction [OF g, of _ "''SOURCE''"] lower_words rows ends dict_A_to_B)
qed

section \<open>Listing configuration items\<close>


































end
